theory Spec2Isabelle
  imports Complex_Main
begin

section \<open>Numbers\<close>

text \<open>
  The application computes with three kinds of numbers.  Python integers (the values
  parsed from the Alpha Vantage payload) are \<open>int\<close>.  Python and numpy floats are
  modelled by \<open>npfloat\<close>: a rational number, one of the two infinities, or NaN.
  There is a single zero: a nonzero finite number divided by zero takes the sign of
  the numerator, as numpy does for a divisor \<open>+0.0\<close>.  Values that are either a
  Python float or the Python object \<open>None\<close> are options.

  The operations \<open>np_add\<close> to \<open>np_div\<close> compute the exact result.  The
  operations \<open>f64_add\<close> to \<open>f64_div\<close> further below round it to the nearest
  double, as the hardware does.  The Rule of 40 and the return on equity, whose
  sums and products are compared with a bound that they can reach exactly, are
  computed with the rounded operations; the growth rates, the margins and the price
  columns stand for the exact values.
\<close>

datatype npfloat = NaN | PInf | NInf | Fin rat

fun isna :: "npfloat \<Rightarrow> bool" where
  "isna NaN = True"
| "isna _ = False"

fun np_add :: "npfloat \<Rightarrow> npfloat \<Rightarrow> npfloat" where
  "np_add NaN _ = NaN"
| "np_add _ NaN = NaN"
| "np_add (Fin a) (Fin b) = Fin (a + b)"
| "np_add PInf NInf = NaN"
| "np_add NInf PInf = NaN"
| "np_add PInf _ = PInf"
| "np_add NInf _ = NInf"
| "np_add _ PInf = PInf"
| "np_add _ NInf = NInf"

fun np_sub :: "npfloat \<Rightarrow> npfloat \<Rightarrow> npfloat" where
  "np_sub NaN _ = NaN"
| "np_sub _ NaN = NaN"
| "np_sub (Fin a) (Fin b) = Fin (a - b)"
| "np_sub PInf PInf = NaN"
| "np_sub NInf NInf = NaN"
| "np_sub PInf _ = PInf"
| "np_sub NInf _ = NInf"
| "np_sub _ PInf = NInf"
| "np_sub _ NInf = PInf"

fun np_mul :: "npfloat \<Rightarrow> npfloat \<Rightarrow> npfloat" where
  "np_mul NaN _ = NaN"
| "np_mul _ NaN = NaN"
| "np_mul (Fin a) (Fin b) = Fin (a * b)"
| "np_mul (Fin a) PInf = (if a = 0 then NaN else if 0 < a then PInf else NInf)"
| "np_mul (Fin a) NInf = (if a = 0 then NaN else if 0 < a then NInf else PInf)"
| "np_mul PInf (Fin b) = (if b = 0 then NaN else if 0 < b then PInf else NInf)"
| "np_mul NInf (Fin b) = (if b = 0 then NaN else if 0 < b then NInf else PInf)"
| "np_mul PInf PInf = PInf"
| "np_mul PInf NInf = NInf"
| "np_mul NInf PInf = NInf"
| "np_mul NInf NInf = PInf"

fun np_div :: "npfloat \<Rightarrow> npfloat \<Rightarrow> npfloat" where
  "np_div NaN _ = NaN"
| "np_div _ NaN = NaN"
| "np_div (Fin a) (Fin b) =
     (if b = 0 then (if a = 0 then NaN else if 0 < a then PInf else NInf)
      else Fin (a / b))"
| "np_div (Fin a) PInf = Fin 0"
| "np_div (Fin a) NInf = Fin 0"
| "np_div PInf (Fin b) = (if 0 \<le> b then PInf else NInf)"
| "np_div NInf (Fin b) = (if 0 \<le> b then NInf else PInf)"
| "np_div PInf PInf = NaN"
| "np_div PInf NInf = NaN"
| "np_div NInf PInf = NaN"
| "np_div NInf NInf = NaN"

fun np_abs :: "npfloat \<Rightarrow> npfloat" where
  "np_abs NaN = NaN"
| "np_abs PInf = PInf"
| "np_abs NInf = PInf"
| "np_abs (Fin a) = Fin \<bar>a\<bar>"

text \<open>Comparisons: every ordered comparison with NaN is false, \<open>!=\<close> with NaN is true.\<close>

fun np_gt :: "npfloat \<Rightarrow> npfloat \<Rightarrow> bool" where
  "np_gt NaN _ = False"
| "np_gt _ NaN = False"
| "np_gt (Fin a) (Fin b) = (b < a)"
| "np_gt PInf PInf = False"
| "np_gt PInf _ = True"
| "np_gt _ PInf = False"
| "np_gt NInf _ = False"
| "np_gt _ NInf = True"

fun np_ge :: "npfloat \<Rightarrow> npfloat \<Rightarrow> bool" where
  "np_ge NaN _ = False"
| "np_ge _ NaN = False"
| "np_ge (Fin a) (Fin b) = (b \<le> a)"
| "np_ge PInf _ = True"
| "np_ge _ NInf = True"
| "np_ge _ PInf = False"
| "np_ge NInf _ = False"

fun np_lt :: "npfloat \<Rightarrow> npfloat \<Rightarrow> bool" where
  "np_lt a b = np_gt b a"

definition np_ne :: "npfloat \<Rightarrow> npfloat \<Rightarrow> bool" where
  "np_ne a b = (isna a \<or> isna b \<or> a \<noteq> b)"

subsection \<open>Rounding to double precision\<close>

text \<open>
  A double is zero or \<open>m * 2^s\<close> with \<open>2^52 \<le> |m| < 2^53\<close> and
  \<open>-1074 \<le> s \<le> 971\<close>, or a subnormal number \<open>m * 2^-1074\<close> with
  \<open>|m| < 2^52\<close>.  \<open>round_double x\<close> is the double nearest to \<open>x\<close>, the one
  with the even \<open>m\<close> when two are equally near, and an infinity when the rounded
  magnitude reaches \<open>2^1024\<close> (IEEE 754, round to nearest, ties to even).
\<close>

function bit_length :: "int \<Rightarrow> int" where
  "bit_length n = (if n \<le> 0 then 0 else 1 + bit_length (n div 2))"
  by auto

termination
  by (relation "measure nat") auto

declare bit_length.simps [simp del]

text \<open>\<open>floor_log2 p q\<close> is the \<open>e\<close> with \<open>2^e \<le> p / q < 2^(e+1)\<close>, for positive \<open>p\<close> and \<open>q\<close>.\<close>

definition floor_log2 :: "int \<Rightarrow> int \<Rightarrow> int" where
  "floor_log2 p q =
     (let k = bit_length p - bit_length q
      in if (if 0 \<le> k then q * 2 ^ nat k \<le> p else q \<le> p * 2 ^ nat (- k)) then k else k - 1)"

text \<open>The integer nearest to \<open>n / d\<close>, the even one of two, for positive \<open>d\<close>.\<close>

definition round_half_even :: "int \<Rightarrow> int \<Rightarrow> int" where
  "round_half_even n d =
     (let f = n div d; r = n mod d
      in if 2 * r < d then f else if d < 2 * r then f + 1 else if even f then f else f + 1)"

definition round_double :: "rat \<Rightarrow> npfloat" where
  "round_double x =
     (if x = 0 then Fin 0
      else
        let (p, q) = quotient_of x;
            e = floor_log2 \<bar>p\<bar> q;
            s = max e (- 1022) - 52;
            m = (if 0 \<le> s then round_half_even p (q * 2 ^ nat s)
                 else round_half_even (p * 2 ^ nat (- s)) q)
        in if 1023 < e \<or> (e = 1023 \<and> \<bar>m\<bar> = 2 ^ 53)
           then (if 0 < x then PInf else NInf)
           else Fin (if 0 \<le> s then of_int (m * 2 ^ nat s) else of_int m / of_int (2 ^ nat (- s))))"

fun f64 :: "npfloat \<Rightarrow> npfloat" where
  "f64 (Fin x) = round_double x"
| "f64 NaN = NaN"
| "f64 PInf = PInf"
| "f64 NInf = NInf"

definition f64_add :: "npfloat \<Rightarrow> npfloat \<Rightarrow> npfloat" where
  "f64_add a b = f64 (np_add a b)"

definition f64_sub :: "npfloat \<Rightarrow> npfloat \<Rightarrow> npfloat" where
  "f64_sub a b = f64 (np_sub a b)"

definition f64_mul :: "npfloat \<Rightarrow> npfloat \<Rightarrow> npfloat" where
  "f64_mul a b = f64 (np_mul a b)"

definition f64_div :: "npfloat \<Rightarrow> npfloat \<Rightarrow> npfloat" where
  "f64_div a b = f64 (np_div a b)"

section \<open>Score aggregation (main flow)\<close>

record tech_scores =
  stage2 :: rat
  market_pulse :: rat
  atr_percentile :: rat
  accumulation_distribution :: rat
  insider_activity :: rat
  key_bar :: rat

record scores =
  sales_growth :: rat
  gross_margin :: rat
  earnings :: rat
  rule_of_40 :: rat
  roe :: rat

record remarks_scores =
  top_rated_group :: rat
  new_development :: rat

text \<open>\<open>sum(tech_scores.values())\<close> and its two siblings.\<close>

definition total_tech_score :: "tech_scores \<Rightarrow> rat" where
  "total_tech_score t =
     stage2 t + market_pulse t + atr_percentile t + accumulation_distribution t
       + insider_activity t + key_bar t"

definition total_fund_score :: "scores \<Rightarrow> rat" where
  "total_fund_score f =
     sales_growth f + gross_margin f + earnings f + rule_of_40 f + roe f"

definition total_remarks_score :: "remarks_scores \<Rightarrow> rat" where
  "total_remarks_score r = top_rated_group r + new_development r"

definition max_score :: rat where
  "max_score = 13"

definition total_score :: "tech_scores \<Rightarrow> scores \<Rightarrow> remarks_scores \<Rightarrow> rat" where
  "total_score t f r = total_tech_score t + total_fund_score f + total_remarks_score r"

definition percentage :: "tech_scores \<Rightarrow> scores \<Rightarrow> remarks_scores \<Rightarrow> rat" where
  "percentage t f r = (total_score t f r / max_score) * 100"

datatype rating = Excellent | Good | Average | Below_Average | Poor

definition rating_of :: "rat \<Rightarrow> rating" where
  "rating_of p =
     (if p \<ge> 75 then Excellent
      else if p \<ge> 60 then Good
      else if p \<ge> 45 then Average
      else if p \<ge> 30 then Below_Average
      else Poor)"

definition rating :: "tech_scores \<Rightarrow> scores \<Rightarrow> remarks_scores \<Rightarrow> rating" where
  "rating t f r = rating_of (percentage t f r)"

text \<open>
  The sub-scores the main flow can put into the three dictionaries: a graded
  indicator is 0, 0.5 or 1.0, a binary one 0 or 1.
\<close>

definition graded :: "rat \<Rightarrow> bool" where
  "graded x = (x = 0 \<or> x = 1/2 \<or> x = 1)"

definition binary :: "rat \<Rightarrow> bool" where
  "binary x = (x = 0 \<or> x = 1)"

definition valid_tech :: "tech_scores \<Rightarrow> bool" where
  "valid_tech t =
     (graded (stage2 t) \<and> graded (market_pulse t) \<and> binary (atr_percentile t)
      \<and> binary (accumulation_distribution t) \<and> binary (insider_activity t)
      \<and> graded (key_bar t))"

definition valid_fund :: "scores \<Rightarrow> bool" where
  "valid_fund f =
     (graded (sales_growth f) \<and> graded (gross_margin f) \<and> graded (earnings f)
      \<and> binary (rule_of_40 f) \<and> binary (roe f))"

definition valid_remarks :: "remarks_scores \<Rightarrow> bool" where
  "valid_remarks r = (binary (top_rated_group r) \<and> binary (new_development r))"

text \<open>
  An instance: technical 4.5, fundamental 3.5 and remarks 1 give 9 out of 13,
  about 69 per cent, rated Good.
\<close>

definition example_tech :: tech_scores where
  "example_tech = \<lparr>stage2 = 1, market_pulse = 1/2, atr_percentile = 1,
     accumulation_distribution = 1, insider_activity = 0, key_bar = 1\<rparr>"

definition example_fund :: scores where
  "example_fund = \<lparr>sales_growth = 1, gross_margin = 1/2, earnings = 1,
     rule_of_40 = 1, roe = 0\<rparr>"

definition example_remarks :: remarks_scores where
  "example_remarks = \<lparr>top_rated_group = 1, new_development = 0\<rparr>"

section \<open>Fundamentals from the primary provider (Yahoo Finance)\<close>

text \<open>
  A statement (\<open>quarterly_income_stmt\<close>, \<open>quarterly_balance_sheet\<close>) is a table
  indexed by line item; \<open>income.loc[name].values\<close> is the row of that item, most
  recent quarter first, a numpy array in which a missing cell is NaN.
  \<open>name in income.index\<close> is \<open>income name \<noteq> None\<close>.
\<close>

type_synonym statement = "string \<Rightarrow> npfloat list option"

record fund_data =
  income :: statement
  balance :: statement
  info :: "string \<Rightarrow> npfloat option"

datatype py_error = ValueError | IndexError | AttributeError | OverflowError | ZeroDivisionError

definition no_scores :: scores where
  "no_scores = \<lparr>sales_growth = 0, gross_margin = 0, earnings = 0, rule_of_40 = 0, roe = 0\<rparr>"

text \<open>
  The \<open>details\<close> dictionary that both scoring functions return beside the
  scores, restricted to the keys that hold numbers; a key that was not assigned is
  \<open>None\<close>.  The primary provider's numbers are floats, the secondary provider's
  are integers (\<open>'n\<close>) and the growth rates and margins computed from them
  (\<open>'g\<close>); the Rule of 40 is computed in floats and the return on equity comes
  from the primary provider in both cases.
\<close>

record ('n, 'g) details =
  d_sales :: "'n list option"
  d_earnings :: "'n list option"
  d_gross_profit :: "'n list option"
  d_sales_growth :: "'g option list option"
  d_gross_margin :: "'g option list option"
  d_earnings_growth :: "'g option list option"
  d_latest_revenue_growth :: "npfloat option"
  d_latest_profit_margin :: "npfloat option"
  d_rule_of_40 :: "npfloat option"
  d_roe :: "npfloat option"
  d_roe_quarters :: "npfloat option list option"

definition no_details :: "('n, 'g) details" where
  "no_details = \<lparr>d_sales = None, d_earnings = None, d_gross_profit = None,
     d_sales_growth = None, d_gross_margin = None, d_earnings_growth = None,
     d_latest_revenue_growth = None, d_latest_profit_margin = None, d_rule_of_40 = None,
     d_roe = None, d_roe_quarters = None\<rparr>"

text \<open>
  \<open>check_growth_acceleration\<close> consists of four copies of one block, for the
  offsets 0 to 3; \<open>yoy_block values k\<close> is the copy for offset \<open>k\<close>.
\<close>

definition yoy_block :: "npfloat list \<Rightarrow> nat \<Rightarrow> npfloat option" where
  "yoy_block values k =
     (if length values > k + 4 \<and> np_ne (values ! (k + 4)) (Fin 0)
         \<and> \<not> isna (values ! k) \<and> \<not> isna (values ! (k + 4))
      then Some (np_mul (np_div (np_sub (values ! k) (values ! (k + 4)))
                                (np_abs (values ! (k + 4)))) (Fin 100))
      else None)"

definition check_growth_acceleration :: "npfloat list \<Rightarrow> bool \<times> npfloat option list" where
  "check_growth_acceleration values =
     (if length values < 5 then (False, [])
      else
        let growth_rates =
              [yoy_block values 0, yoy_block values 1, yoy_block values 2, yoy_block values 3]
        in case (growth_rates ! 0, growth_rates ! 1) of
             (Some g0, Some g1) \<Rightarrow> (np_gt g0 g1, growth_rates)
           | _ \<Rightarrow> (False, growth_rates))"

text \<open>
  Block 1 of \<open>calculate_fundamental_scores\<close>: the score, \<open>details['sales']\<close> and
  \<open>details['sales_growth']\<close> (both unassigned without a revenue row).
\<close>

definition yahoo_sales_growth ::
  "statement \<Rightarrow> rat \<times> npfloat list option \<times> npfloat option list option" where
  "yahoo_sales_growth inc =
     (case inc ''Total Revenue'' of
        None \<Rightarrow> (0, None, None)
      | Some row \<Rightarrow>
          let revenue = take 8 row;
              (is_accelerating, growth_rates) = check_growth_acceleration revenue;
              latest_yoy = (if growth_rates \<noteq> [] then growth_rates ! 0 else None);
              score =
                (case latest_yoy of
                   None \<Rightarrow> 0
                 | Some l \<Rightarrow>
                     if np_gt l (Fin 30) then 1
                     else (if is_accelerating then 1/2 else 0)
                        + (if np_gt l (Fin 15) then 1/2 else 0))
          in (score, Some (take 4 revenue), Some (take 4 growth_rates)))"

text \<open>Block 2: the gross margins of the latest four quarters and their score.\<close>

definition yahoo_gross_margin_values :: "statement \<Rightarrow> npfloat option list" where
  "yahoo_gross_margin_values inc =
     (case (inc ''Gross Profit'', inc ''Total Revenue'') of
        (Some gp_row, Some rev_row) \<Rightarrow>
          let gross_profit = take 4 gp_row; revenue = take 4 rev_row
          in if length revenue = length gross_profit
             then map (\<lambda>i. if np_ne (revenue ! i) (Fin 0)
                            then Some (np_mul (np_div (gross_profit ! i) (revenue ! i)) (Fin 100))
                            else None)
                      [0 ..< length revenue]
             else []
      | _ \<Rightarrow> [])"

definition yahoo_gross_margin :: "statement \<Rightarrow> rat \<times> npfloat option list option" where
  "yahoo_gross_margin inc =
     (let gross_margin_values = yahoo_gross_margin_values inc
      in if length gross_margin_values \<ge> 2
         then ((case gross_margin_values ! 0 of
                  None \<Rightarrow> 0
                | Some latest_margin \<Rightarrow>
                    (case gross_margin_values ! 1 of
                       None \<Rightarrow> 0
                     | Some prev_margin \<Rightarrow> if np_gt latest_margin prev_margin then 1/2 else 0)
                    + (if np_gt latest_margin (Fin 40) then 1/2 else 0)),
               Some gross_margin_values)
         else (0, None))"

text \<open>Block 3: earnings growth, always additive.\<close>

definition yahoo_earnings ::
  "statement \<Rightarrow> rat \<times> npfloat list option \<times> npfloat option list option" where
  "yahoo_earnings inc =
     (case inc ''Net Income'' of
        None \<Rightarrow> (0, None, None)
      | Some row \<Rightarrow>
          let earnings = take 8 row;
              (is_accelerating, growth_rates) = check_growth_acceleration earnings;
              latest_yoy = (if growth_rates \<noteq> [] then growth_rates ! 0 else None);
              score =
                (case latest_yoy of
                   None \<Rightarrow> 0
                 | Some l \<Rightarrow>
                     (if is_accelerating then 1/2 else 0)
                   + (if np_gt l (Fin 20) then 1/2 else 0))
          in (score, Some (take 4 earnings), Some (take 4 growth_rates)))"

text \<open>
  Block 4, the Rule of 40, in double-precision arithmetic.  \<open>.values[0]\<close> of a row
  without columns raises IndexError inside the \<open>try\<close>; the \<open>except\<close> leaves the
  score at 0.
\<close>

definition yahoo_revenue_growth :: "statement \<Rightarrow> npfloat option" where
  "yahoo_revenue_growth inc =
     (case inc ''Total Revenue'' of
        None \<Rightarrow> None
      | Some row \<Rightarrow>
          let revenue = take 2 row
          in if length revenue \<ge> 2 \<and> np_ne (revenue ! 1) (Fin 0)
             then Some (f64_mul (f64_div (f64_sub (revenue ! 0) (revenue ! 1))
                                         (np_abs (revenue ! 1))) (Fin 100))
             else None)"

definition first_value :: "npfloat list \<Rightarrow> py_error + npfloat" where
  "first_value row = (case row of [] \<Rightarrow> Inl IndexError | v # _ \<Rightarrow> Inr v)"

definition margin_of :: "npfloat list \<Rightarrow> npfloat list \<Rightarrow> py_error + npfloat option" where
  "margin_of num_row rev_row =
     (case first_value num_row of
        Inl e \<Rightarrow> Inl e
      | Inr profit \<Rightarrow>
          (case first_value rev_row of
             Inl e \<Rightarrow> Inl e
           | Inr revenue \<Rightarrow>
               Inr (if np_ne revenue (Fin 0)
                    then Some (f64_mul (f64_div profit revenue) (Fin 100))
                    else None)))"

definition yahoo_profit_margin_pct :: "statement \<Rightarrow> py_error + npfloat option" where
  "yahoo_profit_margin_pct inc =
     (case (inc ''Gross Profit'', inc ''Total Revenue'') of
        (Some gp_row, Some rev_row) \<Rightarrow> margin_of gp_row rev_row
      | _ \<Rightarrow>
        (case (inc ''EBITDA'', inc ''Total Revenue'') of
           (Some eb_row, Some rev_row) \<Rightarrow> margin_of eb_row rev_row
         | _ \<Rightarrow> Inr None))"

text \<open>
  The score with \<open>details['latest_revenue_growth']\<close>,
  \<open>details['latest_profit_margin']\<close> and \<open>details['rule_of_40']\<close>.  The revenue
  growth is assigned before the row access that may raise.
\<close>

definition yahoo_rule_of_40 ::
  "statement \<Rightarrow> rat \<times> npfloat option \<times> npfloat option \<times> npfloat option" where
  "yahoo_rule_of_40 inc =
     (let revenue_growth = yahoo_revenue_growth inc
      in case yahoo_profit_margin_pct inc of
           Inl _ \<Rightarrow> (0, revenue_growth, None, None)
         | Inr profit_margin_pct \<Rightarrow>
             (case (revenue_growth, profit_margin_pct) of
                (Some g, Some m) \<Rightarrow>
                  (let rule_of_40_value = f64_add g m
                   in (if np_ge rule_of_40_value (Fin 40) then 1 else 0,
                       revenue_growth, profit_margin_pct, Some rule_of_40_value))
              | _ \<Rightarrow> (0, revenue_growth, profit_margin_pct, None)))"

text \<open>Block 5: return on equity, reported or derived, in double-precision arithmetic.\<close>

definition yahoo_roe_quarters :: "fund_data \<Rightarrow> npfloat option list" where
  "yahoo_roe_quarters fd =
     (case (income fd ''Net Income'', balance fd ''Stockholders Equity'') of
        (Some ni_row, Some eq_row) \<Rightarrow>
          let net_income = take 4 ni_row; equity = take 4 eq_row
          in map (\<lambda>i. if np_ne (equity ! i) (Fin 0) \<and> \<not> isna (net_income ! i)
                           \<and> \<not> isna (equity ! i)
                       then Some (f64_mul (f64_div (f64_mul (net_income ! i) (Fin 4))
                                                  (equity ! i)) (Fin 100))
                       else None)
                 [0 ..< min (length net_income) (length equity)]
      | _ \<Rightarrow> [])"

text \<open>The score with \<open>details['roe']\<close> and \<open>details['roe_quarters']\<close>.\<close>

definition yahoo_roe :: "fund_data \<Rightarrow> rat \<times> npfloat option \<times> npfloat option list option" where
  "yahoo_roe fd =
     (case info fd ''returnOnEquity'' of
        Some r \<Rightarrow>
          (let roe_pct = f64_mul r (Fin 100)
           in (if np_ge roe_pct (Fin 15) then 1 else 0, Some roe_pct, Some [Some roe_pct]))
      | None \<Rightarrow>
          (let roe_quarters = yahoo_roe_quarters fd
           in if roe_quarters \<noteq> []
              then ((case roe_quarters ! 0 of
                       Some q \<Rightarrow> if np_ge q (Fin 15) then 1 else 0
                     | None \<Rightarrow> 0),
                    None, Some roe_quarters)
              else (0, None, None)))"

definition calculate_fundamental_scores ::
  "fund_data option \<Rightarrow> scores \<times> (npfloat, npfloat) details" where
  "calculate_fundamental_scores fund =
     (case fund of
        None \<Rightarrow> (no_scores, no_details)
      | Some fd \<Rightarrow>
          (let (sales_sc, sales, sales_g) = yahoo_sales_growth (income fd);
               (margin_sc, margins) = yahoo_gross_margin (income fd);
               (earn_sc, earns, earn_g) = yahoo_earnings (income fd);
               (r40_sc, rev_growth, profit_margin, r40) = yahoo_rule_of_40 (income fd);
               (roe_sc, roe_pct, roe_qs) = yahoo_roe fd
           in (\<lparr>sales_growth = sales_sc, gross_margin = margin_sc, earnings = earn_sc,
                rule_of_40 = r40_sc, roe = roe_sc\<rparr>,
               \<lparr>d_sales = sales, d_earnings = earns, d_gross_profit = None,
                d_sales_growth = sales_g, d_gross_margin = margins, d_earnings_growth = earn_g,
                d_latest_revenue_growth = rev_growth, d_latest_profit_margin = profit_margin,
                d_rule_of_40 = r40, d_roe = roe_pct, d_roe_quarters = roe_qs\<rparr>)))"

section \<open>Fundamentals from the secondary provider (Alpha Vantage)\<close>

text \<open>
  A Python \<open>str\<close> whose characters matter is the list of its code points;
  \<open>str\<close> gives the one that a literal denotes.
\<close>

type_synonym pystr = "int list"

definition str :: "string \<Rightarrow> pystr" where
  "str s = map of_char s"

text \<open>
  A quarterly report is a JSON object whose values are strings (the provider sends
  every number as a string); \<open>q.get(name)\<close> is \<open>q name\<close>, \<open>None\<close> when the
  key is absent.
\<close>

type_synonym report = "string \<Rightarrow> pystr option"

subsection \<open>\<open>str.strip\<close> on a string of ASCII characters\<close>

definition is_space :: "char \<Rightarrow> bool" where
  "is_space c = (c \<in> set [CHR '' '', CHR 0x09, CHR 0x0A, CHR 0x0B, CHR 0x0C, CHR 0x0D,
                          CHR 0x1C, CHR 0x1D, CHR 0x1E, CHR 0x1F])"

definition py_strip :: "string \<Rightarrow> string" where
  "py_strip s = rev (dropWhile is_space (rev (dropWhile is_space s)))"

subsection \<open>Python's \<open>int\<close> on a \<open>str\<close>\<close>

text \<open>
  \<open>int(s)\<close> first maps the string to ASCII.  A code point below 127 stays as it
  is.  From 127 on, white space becomes a blank, a decimal digit of any script
  becomes the ASCII digit of its value, and every other character becomes a question
  mark, which no number contains.  The tables are those of Unicode 14 (Python 3.11):
  the white space from U+0085 on, and the code points of the digit zero of each
  script, which the other nine digits follow.
\<close>

definition unicode_space :: "int \<Rightarrow> bool" where
  "unicode_space c =
     (c \<in> set [0x85, 0xA0, 0x1680, 0x2028, 0x2029, 0x202F, 0x205F, 0x3000]
      \<or> (0x2000 \<le> c \<and> c \<le> 0x200A))"

definition decimal_zeros :: "int list" where
  "decimal_zeros =
      [0x660, 0x6F0, 0x7C0, 0x966, 0x9E6, 0xA66, 0xAE6, 0xB66, 0xBE6, 0xC66, 0xCE6,
       0xD66, 0xDE6, 0xE50, 0xED0, 0xF20, 0x1040, 0x1090, 0x17E0, 0x1810, 0x1946,
       0x19D0, 0x1A80, 0x1A90, 0x1B50, 0x1BB0, 0x1C40, 0x1C50, 0xA620, 0xA8D0, 0xA900,
       0xA9D0, 0xA9F0, 0xAA50, 0xABF0, 0xFF10, 0x104A0, 0x10D30, 0x11066, 0x110F0,
       0x11136, 0x111D0, 0x112F0, 0x11450, 0x114D0, 0x11650, 0x116C0, 0x11730, 0x118E0,
       0x11950, 0x11C50, 0x11D50, 0x11DA0, 0x16A60, 0x16AC0, 0x16B50, 0x1D7CE, 0x1D7D8,
       0x1D7E2, 0x1D7EC, 0x1D7F6, 0x1E140, 0x1E2F0, 0x1E950, 0x1FBF0]"

definition unicode_decimal :: "int \<Rightarrow> int option" where
  "unicode_decimal c =
     (case filter (\<lambda>z. z \<le> c \<and> c < z + 10) decimal_zeros of
        [] \<Rightarrow> None
      | z # _ \<Rightarrow> Some (c - z))"

definition to_ascii :: "int \<Rightarrow> int" where
  "to_ascii c =
     (if c < 127 then c
      else if unicode_space c then 32
      else case unicode_decimal c of Some v \<Rightarrow> 48 + v | None \<Rightarrow> 63)"

text \<open>
  In the ASCII text, \<open>int\<close> skips the white space on both sides (blank, tab, line
  feed, vertical tab, form feed, carriage return; not the separators 0x1C to 0x1F),
  reads an optional sign and then decimal digits, where single underscores may
  separate digits.  Anything else raises ValueError, and so do more than 4300 digits
  (the default of \<open>sys.int_max_str_digits\<close>).
\<close>

definition ascii_space :: "int \<Rightarrow> bool" where
  "ascii_space c = (c = 32 \<or> (9 \<le> c \<and> c \<le> 13))"

definition is_digit :: "int \<Rightarrow> bool" where
  "is_digit c = (48 \<le> c \<and> c \<le> 57)"

fun parse_digits :: "bool \<Rightarrow> int \<Rightarrow> int list \<Rightarrow> int option" where
  "parse_digits after_digit acc [] = (if after_digit then Some acc else None)"
| "parse_digits after_digit acc (c # cs) =
     (if is_digit c then parse_digits True (acc * 10 + (c - 48)) cs
      else if c = 95 \<and> after_digit \<and> cs \<noteq> [] \<and> is_digit (hd cs)
           then parse_digits False acc cs
      else None)"

definition py_int :: "pystr \<Rightarrow> py_error + int" where
  "py_int s =
     (case rev (dropWhile ascii_space (rev (dropWhile ascii_space (map to_ascii s)))) of
        [] \<Rightarrow> Inl ValueError
      | c # cs \<Rightarrow>
          (let digits = (if c = 45 \<or> c = 43 then cs else c # cs)
           in if 4300 < int (length (filter is_digit digits)) then Inl ValueError
              else case parse_digits False 0 digits of
                     None \<Rightarrow> Inl ValueError
                   | Some n \<Rightarrow> Inr (if c = 45 then - n else n)))"

text \<open>
  The expression \<open>int(x) if x and x != 'None' else 0\<close>, which the function applies
  to every field it reads.
\<close>

definition int_or_zero :: "pystr option \<Rightarrow> py_error + int" where
  "int_or_zero x =
     (case x of
        None \<Rightarrow> Inr 0
      | Some s \<Rightarrow> if s \<noteq> [] \<and> s \<noteq> str ''None'' then py_int s else Inr 0)"

fun map_err :: "('a \<Rightarrow> py_error + 'b) \<Rightarrow> 'a list \<Rightarrow> py_error + 'b list" where
  "map_err f [] = Inr []"
| "map_err f (x # xs) =
     (case f x of
        Inl e \<Rightarrow> Inl e
      | Inr y \<Rightarrow> (case map_err f xs of Inl e \<Rightarrow> Inl e | Inr ys \<Rightarrow> Inr (y # ys)))"

subsection \<open>\<open>calculate_alpha_vantage_fundamentals\<close>\<close>

text \<open>The extraction loop over \<open>income_data[:8]\<close>, one list per field.\<close>

definition extract_field :: "string \<Rightarrow> report list \<Rightarrow> py_error + int list" where
  "extract_field field income_data = map_err (\<lambda>q. int_or_zero (q field)) (take 8 income_data)"

text \<open>
  Python's \<open>a / b\<close> on integers: the quotient rounded to the nearest double, and
  OverflowError when it is too large for a float.
\<close>

definition int_true_div :: "int \<Rightarrow> int \<Rightarrow> py_error + npfloat" where
  "int_true_div a b =
     (if b = 0 then Inl ZeroDivisionError
      else case round_double (of_int a / of_int b) of
             Fin x \<Rightarrow> Inr (Fin x)
           | _ \<Rightarrow> Inl OverflowError)"

text \<open>
  One year-over-year point of the growth loops.  The division raises where Python's
  does; the point stands for the exact value.
\<close>

definition av_yoy :: "int \<Rightarrow> int \<Rightarrow> py_error + rat option" where
  "av_yoy current year_ago =
     (if year_ago \<noteq> 0 \<and> current \<noteq> 0
      then (case int_true_div (current - year_ago) \<bar>year_ago\<bar> of
              Inl e \<Rightarrow> Inl e
            | Inr _ \<Rightarrow> Inr (Some ((of_int (current - year_ago) / of_int \<bar>year_ago\<bar>) * 100)))
      else Inr None)"

text \<open>
  The growth list of blocks 1 and 3 for one field, given the extracted list of that
  field: eight points from twelve quarters on, four from eight on, otherwise four
  times \<open>None\<close>.
\<close>

definition av_growth :: "string \<Rightarrow> report list \<Rightarrow> int list \<Rightarrow> py_error + rat option list" where
  "av_growth field income_data currents =
     (if length income_data \<ge> 12 then
        map_err (\<lambda>i. let current = (if i < length currents then currents ! i else 0)
                     in case int_or_zero ((income_data ! (i + 4)) field) of
                          Inl e \<Rightarrow> Inl e
                        | Inr year_ago \<Rightarrow> av_yoy current year_ago)
                [0 ..< 8]
      else if length income_data \<ge> 8 then
        map_err (\<lambda>i. let current = currents ! i
                     in case int_or_zero ((income_data ! (i + 4)) field) of
                          Inl e \<Rightarrow> Inl e
                        | Inr year_ago \<Rightarrow> av_yoy current year_ago)
                [0 ..< 4]
      else Inr [None, None, None, None])"

definition av_sales_score :: "rat option list \<Rightarrow> rat" where
  "av_sales_score sales_growth_list =
     (let latest_yoy = sales_growth_list ! 0; prev_yoy = sales_growth_list ! 1
      in case latest_yoy of
           None \<Rightarrow> 0
         | Some l \<Rightarrow>
             if l > 30 then 1
             else (case prev_yoy of None \<Rightarrow> 0 | Some p \<Rightarrow> if l > p then 1/2 else 0)
                + (if l > 15 then 1/2 else 0))"

definition av_earnings_score :: "rat option list \<Rightarrow> rat" where
  "av_earnings_score earnings_growth_list =
     (let latest_yoy = earnings_growth_list ! 0; prev_yoy = earnings_growth_list ! 1
      in case latest_yoy of
           None \<Rightarrow> 0
         | Some l \<Rightarrow>
             (case prev_yoy of None \<Rightarrow> 0 | Some p \<Rightarrow> if l > p then 1/2 else 0)
           + (if l > 20 then 1/2 else 0))"

text \<open>
  Blocks 1 and 3 assign a score only in the two branches that compute growth; with
  fewer than eight quarters the score stays 0.
\<close>

definition av_sales_growth :: "report list \<Rightarrow> int list \<Rightarrow> py_error + rat \<times> rat option list" where
  "av_sales_growth income_data revenues =
     (case av_growth ''totalRevenue'' income_data revenues of
        Inl e \<Rightarrow> Inl e
      | Inr g \<Rightarrow> Inr (if length income_data \<ge> 8 then av_sales_score g else 0, g))"

definition av_earnings_growth :: "report list \<Rightarrow> int list \<Rightarrow> py_error + rat \<times> rat option list" where
  "av_earnings_growth income_data net_incomes =
     (case av_growth ''netIncome'' income_data net_incomes of
        Inl e \<Rightarrow> Inl e
      | Inr g \<Rightarrow> Inr (if length income_data \<ge> 8 then av_earnings_score g else 0, g))"

text \<open>
  Block 2: gross margins.  As in the growth loops, the division raises where
  Python's does and the margin stands for the exact value.
\<close>

definition av_gross_margin_values :: "int list \<Rightarrow> int list \<Rightarrow> py_error + rat option list" where
  "av_gross_margin_values revenues gross_profits =
     map_err (\<lambda>i. if i < length revenues \<and> revenues ! i \<noteq> 0 \<and> gross_profits ! i \<noteq> 0
                  then (case int_true_div (gross_profits ! i) (revenues ! i) of
                          Inl e \<Rightarrow> Inl e
                        | Inr _ \<Rightarrow>
                            Inr (Some ((of_int (gross_profits ! i) / of_int (revenues ! i)) * 100)))
                  else Inr None)
             [0 ..< min 8 (length gross_profits)]"

definition av_gross_margin_score :: "rat option list \<Rightarrow> rat" where
  "av_gross_margin_score gross_margin_values =
     (if length gross_margin_values \<ge> 2
      then (case gross_margin_values ! 0 of
              None \<Rightarrow> 0
            | Some latest_margin \<Rightarrow>
                (case gross_margin_values ! 1 of
                   None \<Rightarrow> 0
                 | Some prev_margin \<Rightarrow> if latest_margin > prev_margin then 1/2 else 0)
                + (if latest_margin > 40 then 1/2 else 0))
      else 0)"

definition av_gross_margin :: "int list \<Rightarrow> int list \<Rightarrow> py_error + rat \<times> rat option list" where
  "av_gross_margin revenues gross_profits =
     (case av_gross_margin_values revenues gross_profits of
        Inl e \<Rightarrow> Inl e
      | Inr gross_margin_values \<Rightarrow>
          Inr (av_gross_margin_score gross_margin_values, gross_margin_values))"

text \<open>
  Block 4: the Rule of 40, with \<open>details['latest_revenue_growth']\<close>,
  \<open>details['latest_profit_margin']\<close> and \<open>details['rule_of_40']\<close>, in
  double-precision arithmetic: each quotient of two integers, each product with 100
  and the sum are rounded.
\<close>

definition av_rule_of_40 ::
  "report list \<Rightarrow> int list \<Rightarrow> int list
     \<Rightarrow> py_error + rat \<times> npfloat option \<times> npfloat option \<times> npfloat option" where
  "av_rule_of_40 income_data revenues gross_profits =
     (if length income_data \<ge> 5 then
        (let latest_rev = revenues ! 0
         in case int_or_zero ((income_data ! 4) ''totalRevenue'') of
              Inl e \<Rightarrow> Inl e
            | Inr year_ago_rev \<Rightarrow>
                if year_ago_rev \<noteq> 0 then
                  (case int_true_div (latest_rev - year_ago_rev) \<bar>year_ago_rev\<bar> of
                     Inl e \<Rightarrow> Inl e
                   | Inr growth_ratio \<Rightarrow>
                       (let revenue_growth = f64_mul growth_ratio (Fin 100)
                        in if revenues ! 0 \<noteq> 0 \<and> gross_profits ! 0 \<noteq> 0 then
                             (case int_true_div (gross_profits ! 0) (revenues ! 0) of
                                Inl e \<Rightarrow> Inl e
                              | Inr margin_ratio \<Rightarrow>
                                  (let profit_margin = f64_mul margin_ratio (Fin 100);
                                       rule_of_40_value = f64_add revenue_growth profit_margin
                                   in Inr (if np_ge rule_of_40_value (Fin 40) then 1 else 0,
                                           Some revenue_growth, Some profit_margin,
                                           Some rule_of_40_value)))
                           else Inr (0, Some revenue_growth, None, None)))
                else Inr (0, None, None, None))
      else Inr (0, None, None, None))"

text \<open>
  The whole function.  A field that \<open>int\<close> rejects makes the call raise, and so
  does a quotient too large for a float: nothing in the function catches the
  ValueError or the OverflowError.  Block 5 leaves the return-on-equity score at 0
  and four times \<open>None\<close> in \<open>details['roe_quarters']\<close>; the main flow
  supplements the score.
\<close>

definition calculate_alpha_vantage_fundamentals ::
  "report list \<Rightarrow> py_error + scores \<times> (int, rat) details" where
  "calculate_alpha_vantage_fundamentals income_data =
     (if income_data = [] \<or> length income_data < 4 then Inr (no_scores, no_details)
      else
        case extract_field ''totalRevenue'' income_data of Inl e \<Rightarrow> Inl e | Inr revenues \<Rightarrow>
        case extract_field ''netIncome'' income_data of Inl e \<Rightarrow> Inl e | Inr net_incomes \<Rightarrow>
        case extract_field ''grossProfit'' income_data of Inl e \<Rightarrow> Inl e | Inr gross_profits \<Rightarrow>
        case av_sales_growth income_data revenues of Inl e \<Rightarrow> Inl e | Inr (sales_sc, sales_g) \<Rightarrow>
        case av_gross_margin revenues gross_profits of Inl e \<Rightarrow> Inl e | Inr (margin_sc, margins) \<Rightarrow>
        case av_earnings_growth income_data net_incomes of Inl e \<Rightarrow> Inl e | Inr (earn_sc, earn_g) \<Rightarrow>
        case av_rule_of_40 income_data revenues gross_profits of
          Inl e \<Rightarrow> Inl e
        | Inr (r40_sc, rev_growth, profit_margin, r40) \<Rightarrow>
          Inr (\<lparr>sales_growth = sales_sc,
                gross_margin = margin_sc,
                earnings = earn_sc,
                rule_of_40 = r40_sc,
                roe = 0\<rparr>,
               \<lparr>d_sales = Some revenues, d_earnings = Some net_incomes,
                d_gross_profit = Some gross_profits,
                d_sales_growth = Some sales_g,
                d_gross_margin = Some margins,
                d_earnings_growth = Some earn_g,
                d_latest_revenue_growth = rev_growth, d_latest_profit_margin = profit_margin,
                d_rule_of_40 = r40, d_roe = None,
                d_roe_quarters = Some [None, None, None, None]\<rparr>))"

section \<open>Provider selection (main flow)\<close>

text \<open>
  The decoded body of the Alpha Vantage answer is a JSON object.  Its values are
  texts, except \<open>quarterlyReports\<close>, which is an array of reports.
\<close>

datatype jvalue = JText string | JReports "report list"

type_synonym json = "string \<Rightarrow> jvalue option"

text \<open>
  What \<open>requests.get\<close> and \<open>.json()\<close> can do: raise, or answer with a status code
  and a body, which decodes to a JSON object or makes \<open>.json()\<close> raise (\<open>None\<close>).
\<close>

datatype http_response = Raises | Response nat "json option"

text \<open>
  The second component of the result of \<open>fetch_alpha_vantage_data\<close> is a message
  built by an f-string with a fixed, non-empty prefix; the constructors stand for the
  seven prefixes.
\<close>

datatype av_error =
    No_api_key
  | Api_error nat
  | Av_error jvalue
  | Rate_limit jvalue
  | Av_info jvalue
  | No_quarterly_data
  | Fetch_exception

definition fetch_alpha_vantage_data :: "string \<Rightarrow> http_response \<Rightarrow> jvalue option \<times> av_error option" where
  "fetch_alpha_vantage_data api_key income_response =
     (if api_key = [] \<or> py_strip api_key = [] then (None, Some No_api_key)
      else case income_response of
             Raises \<Rightarrow> (None, Some Fetch_exception)
           | Response status_code body \<Rightarrow>
               if status_code \<noteq> 200 then (None, Some (Api_error status_code))
               else (case body of
                       None \<Rightarrow> (None, Some Fetch_exception)
                     | Some income_json \<Rightarrow>
                         (case income_json ''Error Message'' of
                            Some m \<Rightarrow> (None, Some (Av_error m))
                          | None \<Rightarrow>
                         (case income_json ''Note'' of
                            Some m \<Rightarrow> (None, Some (Rate_limit m))
                          | None \<Rightarrow>
                         (case income_json ''Information'' of
                            Some m \<Rightarrow> (None, Some (Av_info m))
                          | None \<Rightarrow>
                         (case income_json ''quarterlyReports'' of
                            None \<Rightarrow> (None, Some No_quarterly_data)
                          | Some income_data \<Rightarrow> (Some income_data, None)))))))"

text \<open>Python truthiness of the fetched data: neither \<open>None\<close> nor empty.\<close>

fun truthy :: "jvalue option \<Rightarrow> bool" where
  "truthy None = False"
| "truthy (Some (JText s)) = (s \<noteq> [])"
| "truthy (Some (JReports rs)) = (rs \<noteq> [])"

text \<open>
  The selection at the top of the analysis: \<open>use_av\<close> and the fetched reports.  The
  request is made only when a key is set.
\<close>

definition select_provider :: "string \<Rightarrow> http_response \<Rightarrow> bool \<times> jvalue option" where
  "select_provider av_key income_response =
     (if av_key \<noteq> [] \<and> py_strip av_key \<noteq> [] then
        (let (av_income, av_error) = fetch_alpha_vantage_data av_key income_response
         in if av_error = None \<and> truthy av_income then (True, av_income)
            else (False, av_income))
      else (False, None))"

text \<open>
  The return-on-equity supplement of the Alpha Vantage branch: \<open>yahoo_info\<close> is the
  \<open>info\<close> dictionary of a fresh lookup, \<open>None\<close> when the lookup raises.
\<close>

definition supplement_roe ::
  "(string \<Rightarrow> npfloat option) option \<Rightarrow> scores \<times> ('n, 'g) details
     \<Rightarrow> scores \<times> ('n, 'g) details" where
  "supplement_roe yahoo_info fund =
     (let (fund_scores, fund_details) = fund
      in case yahoo_info of
           None \<Rightarrow> (fund_scores, fund_details\<lparr>d_roe := None\<rparr>)
         | Some d \<Rightarrow>
             (case d ''returnOnEquity'' of
                None \<Rightarrow> (fund_scores, fund_details\<lparr>d_roe := None\<rparr>)
              | Some roe_ttm \<Rightarrow>
                  (let roe_pct = (if np_lt roe_ttm (Fin 1) then f64_mul roe_ttm (Fin 100)
                                  else roe_ttm)
                   in (if np_ge roe_pct (Fin 15) then fund_scores\<lparr>roe := 1\<rparr> else fund_scores,
                       fund_details\<lparr>d_roe := Some roe_pct\<rparr>))))"

text \<open>
  \<open>calculate_alpha_vantage_fundamentals\<close> on what was fetched: \<open>None\<close> and an
  empty or short value give the zero scores (\<open>not income_data or len(income_data) < 4\<close>);
  on a text of four or more characters the first \<open>q.get\<close> raises AttributeError.
\<close>

definition av_scores :: "jvalue option \<Rightarrow> py_error + scores \<times> (int, rat) details" where
  "av_scores av_income =
     (case av_income of
        None \<Rightarrow> Inr (no_scores, no_details)
      | Some (JReports income_data) \<Rightarrow> calculate_alpha_vantage_fundamentals income_data
      | Some (JText s) \<Rightarrow>
          if s = [] \<or> length s < 4 then Inr (no_scores, no_details) else Inl AttributeError)"

text \<open>
  The fundamental scores of one analysis, as the fundamentals tab computes them.
  \<open>fund_fetch\<close> is the result of \<open>fetch_fundamental_data\<close> (data and error
  message), which is called only when Alpha Vantage is not used.  The two branches
  return details of different number types, so the result keeps the scores and says
  which provider backed them.
\<close>

datatype provider = Alpha_Vantage | Yahoo_Finance

definition fundamental_scores ::
  "string \<Rightarrow> http_response \<Rightarrow> fund_data option \<times> string option
     \<Rightarrow> (string \<Rightarrow> npfloat option) option \<Rightarrow> py_error + provider \<times> scores" where
  "fundamental_scores av_key income_response fund_fetch yahoo_info =
     (let (use_av, av_income) = select_provider av_key income_response
      in if use_av then
           (case av_scores av_income of
              Inl e \<Rightarrow> Inl e
            | Inr fund \<Rightarrow> Inr (Alpha_Vantage, fst (supplement_roe yahoo_info fund)))
         else
           (let (fund, fund_error) = fund_fetch
            in if fund_error \<noteq> None \<and> fund_error \<noteq> Some [] then Inr (Yahoo_Finance, no_scores)
               else Inr (Yahoo_Finance, fst (calculate_fundamental_scores fund))))"

section \<open>Key bars\<close>

text \<open>
  A price bar as the price-history provider delivers it; bars are in chronological
  order, the oldest first.
\<close>

record bar =
  Open :: rat
  High :: rat
  Low :: rat
  Close :: rat
  Volume :: rat

text \<open>
  A DataFrame of price bars: the rows, and the four columns that
  \<open>detect_key_bars\<close> assigns (\<open>None\<close> while a column does not exist).  DataFrames
  are objects: the heap is the list of the frames allocated so far, and a reference
  is a position in it.
\<close>

record dataframe =
  rows :: "bar list"
  Volume_SMA30 :: "npfloat list option"
  Open_Close_Change_Pct :: "npfloat list option"
  High_5D_Previous :: "npfloat list option"
  Is_Key_Bar :: "bool list option"

type_synonym heap = "dataframe list"

definition new_frame :: "bar list \<Rightarrow> dataframe" where
  "new_frame bs = \<lparr>rows = bs, Volume_SMA30 = None, Open_Close_Change_Pct = None,
                   High_5D_Previous = None, Is_Key_Bar = None\<rparr>"

subsection \<open>The pandas operations used\<close>

text \<open>\<open>df[name]\<close> for a price column, and for an assigned column.\<close>

definition col :: "(bar \<Rightarrow> rat) \<Rightarrow> dataframe \<Rightarrow> npfloat list" where
  "col field d = map (\<lambda>b. Fin (field b)) (rows d)"

definition assigned :: "'a list option \<Rightarrow> 'a list" where
  "assigned c = (case c of Some xs \<Rightarrow> xs | None \<Rightarrow> [])"

text \<open>The \<open>w\<close> values ending at position \<open>i\<close>.\<close>

definition window :: "nat \<Rightarrow> nat \<Rightarrow> 'a list \<Rightarrow> 'a list" where
  "window w i xs = take w (drop (i + 1 - w) xs)"

fun np_maximum :: "npfloat list \<Rightarrow> npfloat" where
  "np_maximum [] = NaN"
| "np_maximum [x] = x"
| "np_maximum (x # xs) = (let m = np_maximum xs in if np_gt m x then m else x)"

text \<open>
  \<open>s.rolling(window=w).mean()\<close> and \<open>.max()\<close>: NaN until \<open>w\<close> values are
  available and whenever the window holds a NaN.
\<close>

definition rolling_mean :: "nat \<Rightarrow> npfloat list \<Rightarrow> npfloat list" where
  "rolling_mean w xs =
     map (\<lambda>i. if i + 1 < w \<or> list_ex isna (window w i xs) then NaN
              else np_div (foldl np_add (Fin 0) (window w i xs)) (Fin (of_nat w)))
         [0 ..< length xs]"

definition rolling_max :: "nat \<Rightarrow> npfloat list \<Rightarrow> npfloat list" where
  "rolling_max w xs =
     map (\<lambda>i. if i + 1 < w \<or> list_ex isna (window w i xs) then NaN
              else np_maximum (window w i xs))
         [0 ..< length xs]"

text \<open>\<open>s.shift(1)\<close>.\<close>

definition shift1 :: "npfloat list \<Rightarrow> npfloat list" where
  "shift1 xs = (if xs = [] then [] else NaN # butlast xs)"

subsection \<open>\<open>detect_key_bars\<close> and \<open>calculate_key_bar_score\<close>\<close>

definition copy_df :: "heap \<Rightarrow> nat \<Rightarrow> heap \<times> nat" where
  "copy_df h r = (h @ [h ! r], length h)"

definition change_pct :: "bar \<Rightarrow> npfloat" where
  "change_pct b = np_mul (np_div (np_sub (Fin (Close b)) (Fin (Open b))) (Fin (Open b))) (Fin 100)"

definition key_bar_flags :: "dataframe \<Rightarrow> bool list" where
  "key_bar_flags d =
     map (\<lambda>i. np_gt (col Volume d ! i) (assigned (Volume_SMA30 d) ! i)
            \<and> np_gt (np_abs (assigned (Open_Close_Change_Pct d) ! i)) (Fin (3/2))
            \<and> np_gt (col High d ! i) (assigned (High_5D_Previous d) ! i))
         [0 ..< length (rows d)]"

text \<open>
  The result is the heap after the call, the reference of the returned frame and the
  position of the selected row in it.  The parameter \<open>df\<close> is rebound to the copy, so
  every assignment goes to the copy.
\<close>

definition detect_key_bars :: "heap \<Rightarrow> nat option \<Rightarrow> heap \<times> nat option \<times> nat option" where
  "detect_key_bars h df0 =
     (case df0 of
        None \<Rightarrow> (h, None, None)
      | Some r \<Rightarrow>
          if length (rows (h ! r)) < 30 then (h, None, None)
          else
            let (h1, df) = copy_df h r;
                h2 = h1[df := (h1 ! df)\<lparr>Volume_SMA30 :=
                        Some (rolling_mean 30 (col Volume (h1 ! df)))\<rparr>];
                h3 = h2[df := (h2 ! df)\<lparr>Open_Close_Change_Pct :=
                        Some (map change_pct (rows (h2 ! df)))\<rparr>];
                h4 = h3[df := (h3 ! df)\<lparr>High_5D_Previous :=
                        Some (rolling_max 5 (shift1 (col High (h3 ! df))))\<rparr>];
                h5 = h4[df := (h4 ! df)\<lparr>Is_Key_Bar := Some (key_bar_flags (h4 ! df))\<rparr>];
                n = length (rows (h5 ! df));
                recent_data = drop (n - 10) [0 ..< n];
                recent_key_bars = filter (\<lambda>i. assigned (Is_Key_Bar (h5 ! df)) ! i) recent_data
            in if length recent_key_bars > 0
               then (h5, Some df, Some (last recent_key_bars))
               else (h5, Some df, None))"

definition calculate_key_bar_score :: "heap \<Rightarrow> nat option \<Rightarrow> nat option \<Rightarrow> rat" where
  "calculate_key_bar_score h df recent_key_bar =
     (case (df, recent_key_bar) of
        (Some d, Some k) \<Rightarrow>
          (let score = 1/2;
               current_price = Close (last (rows (h ! d)));
               kb_close = Close (rows (h ! d) ! k)
           in if current_price \<le> kb_close * (105/100) then score + 1/2 else score)
      | _ \<Rightarrow> 0)"

subsection \<open>The key-bar rule, stated on the bars\<close>

text \<open>
  The three conditions in terms of the price bars alone, for the bar at position
  \<open>i\<close>: the volume exceeds the mean volume of the thirty bars that end with bar
  \<open>i\<close> itself, the open-to-close change exceeds 1.5 per cent in absolute value (a
  bar that opens at 0 and closes elsewhere counts as an infinite change), and the
  high exceeds the high of each of the five bars before.
\<close>

definition volume_above_average :: "bar list \<Rightarrow> nat \<Rightarrow> bool" where
  "volume_above_average bs i =
     (29 \<le> i \<and> Volume (bs ! i) > (\<Sum>j = i - 29 ..< i + 1. Volume (bs ! j)) / 30)"

definition large_change :: "bar \<Rightarrow> bool" where
  "large_change b =
     (if Open b = 0 then Close b \<noteq> 0
      else \<bar>(Close b - Open b) / Open b * 100\<bar> > 3/2)"

definition new_high :: "bar list \<Rightarrow> nat \<Rightarrow> bool" where
  "new_high bs i = (5 \<le> i \<and> (\<forall>j \<in> {i - 5 ..< i}. High (bs ! j) < High (bs ! i)))"

definition is_key_bar :: "bar list \<Rightarrow> nat \<Rightarrow> bool" where
  "is_key_bar bs i = (volume_above_average bs i \<and> large_change (bs ! i) \<and> new_high bs i)"

text \<open>
  The reading of the volume condition in which the average is taken over the thirty
  bars before bar \<open>i\<close>, the bar itself excluded.
\<close>

definition volume_above_previous_average :: "bar list \<Rightarrow> nat \<Rightarrow> bool" where
  "volume_above_previous_average bs i =
     (30 \<le> i \<and> Volume (bs ! i) > (\<Sum>j = i - 30 ..< i. Volume (bs ! j)) / 30)"

section \<open>Reading the details\<close>

text \<open>
  The first two entries of a list stored in the details (\<open>growth_data[0]\<close>,
  \<open>growth_data[1]\<close>): \<open>None\<close> when the key is unassigned, the list is too
  short, or the entry is \<open>None\<close>.
\<close>

definition latest_of :: "'g option list option \<Rightarrow> 'g option" where
  "latest_of xs = (case xs of Some (l # _) \<Rightarrow> l | _ \<Rightarrow> None)"

definition previous_of :: "'g option list option \<Rightarrow> 'g option" where
  "previous_of xs = (case xs of Some (_ # p # _) \<Rightarrow> p | _ \<Rightarrow> None)"

text \<open>
  A field of a report that carries no number: the key is absent, or its value is
  the empty string or the placeholder \<open>'None'\<close>.
\<close>

definition no_number :: "pystr option \<Rightarrow> bool" where
  "no_number x = (x = None \<or> x = Some [] \<or> x = Some (str ''None''))"

section \<open>Example inputs\<close>

text \<open>A quarterly report with the three fields the scorer reads, given as literals.\<close>

definition mk_report :: "string option \<Rightarrow> string option \<Rightarrow> string option \<Rightarrow> report" where
  "mk_report tr ni gp =
     (\<lambda>k. if k = ''totalRevenue'' then map_option str tr
          else if k = ''netIncome'' then map_option str ni
          else if k = ''grossProfit'' then map_option str gp
          else None)"

text \<open>An income statement with the given rows, and fundamentals with no other data.\<close>

definition mk_income :: "(string \<times> rat list) list \<Rightarrow> statement" where
  "mk_income table = (\<lambda>k. map_option (map Fin) (map_of table k))"

definition mk_fund :: "(string \<times> rat list) list \<Rightarrow> fund_data" where
  "mk_fund table = \<lparr>income = mk_income table, balance = (\<lambda>k. None), info = (\<lambda>k. None)\<rparr>"

text \<open>
  Revenue that grew 20 per cent over the year, after none in the quarter before:
  accelerating and above 15 per cent, but not above 30.
\<close>

definition growth_fund :: fund_data where
  "growth_fund = mk_fund [(''Total Revenue'', [120, 100, 100, 100, 100, 100])]"

definition growth_reports :: "report list" where
  "growth_reports =
     map (\<lambda>r. mk_report (Some r) (Some ''None'') None)
       [''120'', ''100'', ''100'', ''100'', ''100'', ''100'', ''100'', ''100'']"

definition growth_reports_result :: "scores \<times> (int, rat) details" where
  "growth_reports_result =
     (\<lparr>sales_growth = 1, gross_margin = 0, earnings = 0, rule_of_40 = 0, roe = 0\<rparr>,
      \<lparr>d_sales = Some [120, 100, 100, 100, 100, 100, 100, 100],
       d_earnings = Some [0, 0, 0, 0, 0, 0, 0, 0],
       d_gross_profit = Some [0, 0, 0, 0, 0, 0, 0, 0],
       d_sales_growth = Some [Some 20, Some 0, Some 0, Some 0],
       d_gross_margin = Some [None, None, None, None, None, None, None, None],
       d_earnings_growth = Some [None, None, None, None],
       d_latest_revenue_growth = Some (Fin 20), d_latest_profit_margin = None,
       d_rule_of_40 = None, d_roe = None,
       d_roe_quarters = Some [None, None, None, None]\<rparr>)"

text \<open>
  Five quarters of revenue, 120 after four quarters of 100, and a revenue row of
  nine quarters.
\<close>

definition five_reports :: "report list" where
  "five_reports =
     map (\<lambda>r. mk_report (Some r) (Some ''None'') None) [''120'', ''100'', ''100'', ''100'', ''100'']"

definition nine_values :: "npfloat list" where
  "nine_values = map Fin [120, 100, 100, 100, 100, 100, 100, 100, 100]"

definition growth_values :: "npfloat list" where
  "growth_values = map Fin [120, 100, 100, 100, 100, 100]"

definition five_reports_result :: "scores \<times> (int, rat) details" where
  "five_reports_result =
     (\<lparr>sales_growth = 0, gross_margin = 0, earnings = 0, rule_of_40 = 0, roe = 0\<rparr>,
      \<lparr>d_sales = Some [120, 100, 100, 100, 100],
       d_earnings = Some [0, 0, 0, 0, 0],
       d_gross_profit = Some [0, 0, 0, 0, 0],
       d_sales_growth = Some [None, None, None, None],
       d_gross_margin = Some [None, None, None, None, None],
       d_earnings_growth = Some [None, None, None, None],
       d_latest_revenue_growth = Some (Fin 20), d_latest_profit_margin = None,
       d_rule_of_40 = None, d_roe = None,
       d_roe_quarters = Some [None, None, None, None]\<rparr>)"

text \<open>
  Four reports whose latest quarter has the placeholder for revenue, no net income
  and an empty gross profit.
\<close>

definition sparse_reports :: "report list" where
  "sparse_reports =
     [mk_report (Some ''None'') None (Some ''''),
      mk_report (Some ''100'') (Some ''-5'') (Some ''40''),
      mk_report (Some ''100'') (Some ''10'') (Some ''40''),
      mk_report (Some ''100'') (Some ''10'') (Some ''40'')]"

definition sparse_reports_result :: "scores \<times> (int, rat) details" where
  "sparse_reports_result =
     (\<lparr>sales_growth = 0, gross_margin = 0, earnings = 0, rule_of_40 = 0, roe = 0\<rparr>,
      \<lparr>d_sales = Some [0, 100, 100, 100],
       d_earnings = Some [0, - 5, 10, 10],
       d_gross_profit = Some [0, 40, 40, 40],
       d_sales_growth = Some [None, None, None, None],
       d_gross_margin = Some [None, Some 40, Some 40, Some 40],
       d_earnings_growth = Some [None, None, None, None],
       d_latest_revenue_growth = None, d_latest_profit_margin = None,
       d_rule_of_40 = None, d_roe = None,
       d_roe_quarters = Some [None, None, None, None]\<rparr>)"

text \<open>
  Reports that carry only a revenue, given by its code points.  In the first list
  the revenues are 12 after a no-break space, 12 in Arabic-Indic digits, 1000 with a
  sign, an underscore and blanks around it, and a minus sign with a full-width 7 and
  an ideographic space.  In the second list the first revenue is 12 after the file
  separator 0x1C.
\<close>

definition revenue_report :: "pystr \<Rightarrow> report" where
  "revenue_report tr = (\<lambda>k. if k = ''totalRevenue'' then Some tr else None)"

definition unicode_reports :: "report list" where
  "unicode_reports =
     map revenue_report
       [[0xA0, 49, 50], [0x661, 0x662], str '' +1_000 '', [45, 0xFF17, 0x3000]]"

definition unicode_reports_result :: "scores \<times> (int, rat) details" where
  "unicode_reports_result =
     (\<lparr>sales_growth = 0, gross_margin = 0, earnings = 0, rule_of_40 = 0, roe = 0\<rparr>,
      \<lparr>d_sales = Some [12, 12, 1000, - 7],
       d_earnings = Some [0, 0, 0, 0],
       d_gross_profit = Some [0, 0, 0, 0],
       d_sales_growth = Some [None, None, None, None],
       d_gross_margin = Some [None, None, None, None],
       d_earnings_growth = Some [None, None, None, None],
       d_latest_revenue_growth = None, d_latest_profit_margin = None,
       d_rule_of_40 = None, d_roe = None,
       d_roe_quarters = Some [None, None, None, None]\<rparr>)"

definition separator_reports :: "report list" where
  "separator_reports =
     map revenue_report [[0x1C, 49, 50], str ''12'', str ''12'', str ''12'']"

text \<open>
  Revenue of 100 after 50 in the quarter before and 100 a year before, with a gross
  profit of 10; and reports with revenue 200 after 100 a year before and no gross
  profit in the latest quarter.
\<close>

definition quarter_jump_fund :: fund_data where
  "quarter_jump_fund =
     mk_fund [(''Total Revenue'', [100, 50, 50, 50, 100]), (''Gross Profit'', [10, 5, 5, 5, 10])]"

definition no_profit_reports :: "report list" where
  "no_profit_reports =
     [mk_report (Some ''200'') (Some ''10'') (Some ''0''),
      mk_report (Some ''100'') (Some ''10'') (Some ''40''),
      mk_report (Some ''100'') (Some ''10'') (Some ''40''),
      mk_report (Some ''100'') (Some ''10'') (Some ''40''),
      mk_report (Some ''100'') (Some ''10'') (Some ''40'')]"

definition profit_reports :: "report list" where
  "profit_reports =
     [mk_report (Some ''120'') (Some ''10'') (Some ''60''),
      mk_report (Some ''100'') (Some ''10'') (Some ''35''),
      mk_report (Some ''100'') (Some ''10'') (Some ''40''),
      mk_report (Some ''100'') (Some ''10'') (Some ''40''),
      mk_report (Some ''100'') (Some ''10'') (Some ''40'')]"

definition no_profit_reports_result :: "scores \<times> (int, rat) details" where
  "no_profit_reports_result =
     (\<lparr>sales_growth = 0, gross_margin = 0, earnings = 0, rule_of_40 = 0, roe = 0\<rparr>,
      \<lparr>d_sales = Some [200, 100, 100, 100, 100],
       d_earnings = Some [10, 10, 10, 10, 10],
       d_gross_profit = Some [0, 40, 40, 40, 40],
       d_sales_growth = Some [None, None, None, None],
       d_gross_margin = Some [None, Some 40, Some 40, Some 40, Some 40],
       d_earnings_growth = Some [None, None, None, None],
       d_latest_revenue_growth = Some (Fin 100), d_latest_profit_margin = None,
       d_rule_of_40 = None, d_roe = None,
       d_roe_quarters = Some [None, None, None, None]\<rparr>)"

definition profit_reports_result :: "scores \<times> (int, rat) details" where
  "profit_reports_result =
     (\<lparr>sales_growth = 0, gross_margin = 1, earnings = 0, rule_of_40 = 1, roe = 0\<rparr>,
      \<lparr>d_sales = Some [120, 100, 100, 100, 100],
       d_earnings = Some [10, 10, 10, 10, 10],
       d_gross_profit = Some [60, 35, 40, 40, 40],
       d_sales_growth = Some [None, None, None, None],
       d_gross_margin = Some [Some 50, Some 35, Some 40, Some 40, Some 40],
       d_earnings_growth = Some [None, None, None, None],
       d_latest_revenue_growth = Some (Fin 20), d_latest_profit_margin = Some (Fin 50),
       d_rule_of_40 = Some (Fin 70), d_roe = None,
       d_roe_quarters = Some [None, None, None, None]\<rparr>)"

text \<open>
  Revenue 48 after 45 a year before, with a gross profit of 16: the growth of
  6 2/3 per cent and the margin of 33 1/3 per cent add up to 40, but their doubles
  to less.
\<close>

definition rounded_reports :: "report list" where
  "rounded_reports =
     [mk_report (Some ''48'') (Some ''10'') (Some ''16''),
      mk_report (Some ''45'') (Some ''10'') (Some ''15''),
      mk_report (Some ''45'') (Some ''10'') (Some ''15''),
      mk_report (Some ''45'') (Some ''10'') (Some ''15''),
      mk_report (Some ''45'') (Some ''10'') (Some ''15'')]"

definition rounded_reports_result :: "scores \<times> (int, rat) details" where
  "rounded_reports_result =
     (\<lparr>sales_growth = 0, gross_margin = 0, earnings = 0, rule_of_40 = 0, roe = 0\<rparr>,
      \<lparr>d_sales = Some [48, 45, 45, 45, 45],
       d_earnings = Some [10, 10, 10, 10, 10],
       d_gross_profit = Some [16, 15, 15, 15, 15],
       d_sales_growth = Some [None, None, None, None],
       d_gross_margin = Some [Some (100/3), Some (100/3), Some (100/3), Some (100/3),
                              Some (100/3)],
       d_earnings_growth = Some [None, None, None, None],
       d_latest_revenue_growth = Some (Fin (7505999378950827 / 1125899906842624)),
       d_latest_profit_margin = Some (Fin (2345624805922133 / 70368744177664)),
       d_rule_of_40 = Some (Fin (5629499534213119 / 140737488355328)), d_roe = None,
       d_roe_quarters = Some [None, None, None, None]\<rparr>)"

text \<open>
  The same numbers as a primary-provider statement of two quarters, and a payload
  whose latest revenue is a 1 followed by 400 zeros after a revenue of 1.
\<close>

definition rounded_fund :: fund_data where
  "rounded_fund = mk_fund [(''Total Revenue'', [48, 45]), (''Gross Profit'', [16, 15])]"

definition overflow_reports :: "report list" where
  "overflow_reports =
     mk_report (Some (CHR ''1'' # replicate 400 (CHR ''0''))) None None
       # replicate 4 (mk_report (Some ''1'') None None)"

text \<open>
  The margin scenario: gross profit 50 on revenue 100 in the latest quarter, a
  margin of 35 per cent in the quarter before.
\<close>

definition margin_fund :: fund_data where
  "margin_fund = mk_fund [(''Total Revenue'', [100, 100]), (''Gross Profit'', [50, 35])]"

definition margin_reports :: "report list" where
  "margin_reports =
     [mk_report (Some ''100'') (Some ''10'') (Some ''50''),
      mk_report (Some ''100'') (Some ''10'') (Some ''35''),
      mk_report (Some ''100'') (Some ''10'') (Some ''40''),
      mk_report (Some ''100'') (Some ''10'') (Some ''40'')]"



text \<open>
  An Alpha Vantage answer with the reports of the margin scenario, the double nearest
  to 0.15, a company-info dictionary with a given return-on-equity ratio, and an
  answer that signals the rate limit.
\<close>

definition reports_body :: json where
  "reports_body = (\<lambda>k. if k = ''quarterlyReports'' then Some (JReports margin_reports) else None)"

definition near_15_ratio :: rat where
  "near_15_ratio = 5404319552844595 / 36028797018963968"

definition roe_info :: "rat \<Rightarrow> string \<Rightarrow> npfloat option" where
  "roe_info r = (\<lambda>k. if k = ''returnOnEquity'' then Some (Fin r) else None)"

definition note_body :: json where
  "note_body = (\<lambda>k. if k = ''Note'' then Some (JText ''rate limit'') else None)"

text \<open>Statements without a reported ratio: net income 10 on equity 200.\<close>

definition derived_roe_fund :: fund_data where
  "derived_roe_fund =
     \<lparr>income = mk_income [(''Net Income'', [10, 8])],
      balance = mk_income [(''Stockholders Equity'', [200, 200])],
      info = (\<lambda>k. None)\<rparr>"

definition reported_roe_fund :: fund_data where
  "reported_roe_fund =
     \<lparr>income = mk_income [(''Net Income'', [10, 8])],
      balance = mk_income [(''Stockholders Equity'', [200, 200])],
      info = roe_info (3/2)\<rparr>"

definition empty_info :: "string \<Rightarrow> npfloat option" where
  "empty_info = (\<lambda>k. None)"

definition margin_scores :: "rat \<Rightarrow> scores" where
  "margin_scores r =
     \<lparr>sales_growth = 0, gross_margin = 1, earnings = 0, rule_of_40 = 0, roe = r\<rparr>"

text \<open>
  Thirty quiet bars (open and close 10, high 11, volume 10; the first one with
  volume 1000) followed by a bar that closes at 11 and reaches 12 on volume 11.
\<close>

definition quiet_bar :: "rat \<Rightarrow> bar" where
  "quiet_bar v = \<lparr>Open = 10, High = 11, Low = 9, Close = 10, Volume = v\<rparr>"

definition breakout_bar :: bar where
  "breakout_bar = \<lparr>Open = 10, High = 12, Low = 10, Close = 11, Volume = 11\<rparr>"

definition breakout_bars :: "bar list" where
  "breakout_bars = quiet_bar 1000 # replicate 29 (quiet_bar 10) @ [breakout_bar]"

section \<open>Basic facts about the embedding\<close>

lemma map_err_Inr:
  "map_err f xs = Inr ys \<Longrightarrow> length ys = length xs \<and> (\<forall>i<length xs. f (xs ! i) = Inr (ys ! i))"
proof (induction xs arbitrary: ys)
  case Nil
  then show ?case by simp
next
  case (Cons x xs)
  then obtain y ys' where y: "f x = Inr y" and ys': "map_err f xs = Inr ys'" and ys: "ys = y # ys'"
    by (auto split: sum.splits)
  from Cons.IH [OF ys'] y ys show ?case
    by (auto simp: nth_Cons split: nat.splits)
qed

lemma latest_previous_nth:
  "2 \<le> length g \<Longrightarrow> latest_of (Some g) = g ! 0 \<and> previous_of (Some g) = g ! 1"
  by (cases g; cases "tl g") (auto simp: latest_of_def previous_of_def)

lemma check_growth_acceleration_cases:
  "check_growth_acceleration vs = (acc, g) \<Longrightarrow>
     (length vs < 5 \<and> g = [] \<and> \<not> acc) \<or>
     (5 \<le> length vs \<and> g = [yoy_block vs 0, yoy_block vs 1, yoy_block vs 2, yoy_block vs 3]
        \<and> (acc \<longleftrightarrow> (\<exists>a b. yoy_block vs 0 = Some a \<and> yoy_block vs 1 = Some b \<and> np_gt a b)))"
  by (auto simp: check_growth_acceleration_def Let_def split: if_splits option.splits)

lemma av_growth_length:
  assumes "av_growth field d currents = Inr g"
  shows "length g = (if 12 \<le> length d then 8 else 4)"
  using assms by (auto simp: av_growth_def dest!: map_err_Inr split: if_splits)

text \<open>
  A call of \<open>calculate_alpha_vantage_fundamentals\<close> that returns, on four or
  more reports, has gone through every block.
\<close>

lemma calculate_av_Inr:
  assumes "calculate_alpha_vantage_fundamentals d = Inr (sc, det)" and "4 \<le> length d"
  shows "\<exists>revenues net_incomes gross_profits sg margins eg rg pm r40.
           extract_field ''totalRevenue'' d = Inr revenues
         \<and> extract_field ''netIncome'' d = Inr net_incomes
         \<and> extract_field ''grossProfit'' d = Inr gross_profits
         \<and> av_sales_growth d revenues = Inr (sales_growth sc, sg)
         \<and> av_earnings_growth d net_incomes = Inr (earnings sc, eg)
         \<and> av_rule_of_40 d revenues gross_profits = Inr (rule_of_40 sc, rg, pm, r40)
         \<and> av_gross_margin revenues gross_profits = Inr (gross_margin sc, margins)
         \<and> roe sc = 0
         \<and> det = \<lparr>d_sales = Some revenues, d_earnings = Some net_incomes,
                d_gross_profit = Some gross_profits,
                d_sales_growth = Some sg,
                d_gross_margin = Some margins,
                d_earnings_growth = Some eg,
                d_latest_revenue_growth = rg, d_latest_profit_margin = pm,
                d_rule_of_40 = r40, d_roe = None,
                d_roe_quarters = Some [None, None, None, None]\<rparr>"
  using assms
  by (auto simp: calculate_alpha_vantage_fundamentals_def split: sum.splits prod.splits if_splits)

lemma calculate_av_short:
  assumes "length d < 4"
  shows "calculate_alpha_vantage_fundamentals d = Inr (no_scores, no_details)"
  using assms by (auto simp: calculate_alpha_vantage_fundamentals_def)

lemma yoy_block_Fin:
  assumes "k + 4 < length vs" "vs ! k = Fin a" "vs ! (k + 4) = Fin b" "b \<noteq> 0"
  shows "yoy_block vs k = Some (Fin ((a - b) / \<bar>b\<bar> * 100))"
  using assms by (simp add: yoy_block_def np_ne_def)

lemma yoy_block_None:
  assumes "length vs \<le> k + 4 \<or> vs ! (k + 4) = Fin 0 \<or> isna (vs ! (k + 4)) \<or> isna (vs ! k)"
  shows "yoy_block vs k = None"
  using assms by (auto simp: yoy_block_def np_ne_def)

lemma check_growth_acceleration_rates:
  assumes "5 \<le> length vs"
  shows "snd (check_growth_acceleration vs)
           = [yoy_block vs 0, yoy_block vs 1, yoy_block vs 2, yoy_block vs 3]"
  using assms by (auto simp: check_growth_acceleration_def Let_def split: option.splits)

lemma nth_four:
  "i < 4 \<Longrightarrow> [f 0, f 1, f 2, f (3::nat)] ! i = f i"
  by (auto simp: less_Suc_eq numeral_eq_Suc nth_Cons')

lemma extract_field_nth:
  assumes "extract_field field d = Inr xs"
  shows "length xs = min 8 (length d) \<and> (\<forall>i<length xs. int_or_zero ((d ! i) field) = Inr (xs ! i))"
  using map_err_Inr [OF assms [unfolded extract_field_def]] by auto

lemma map_err_upt:
  assumes "map_err f [0 ..< n] = Inr ys"
  shows "length ys = n \<and> (\<forall>i<n. f i = Inr (ys ! i))"
  using map_err_Inr [OF assms] by auto

lemma av_growth_nth:
  assumes "av_growth field d currents = Inr g" and "8 \<le> length d" and "i < length g"
  shows "\<exists>y. int_or_zero ((d ! (i + 4)) field) = Inr y
            \<and> av_yoy (if 12 \<le> length d \<and> \<not> i < length currents then 0 else currents ! i) y
                = Inr (g ! i)"
proof (cases "12 \<le> length d")
  case True
  with assms(1) have m: "map_err (\<lambda>i. let current = (if i < length currents then currents ! i else 0)
                     in case int_or_zero ((d ! (i + 4)) field) of
                          Inl e \<Rightarrow> Inl e
                        | Inr year_ago \<Rightarrow> av_yoy current year_ago) [0 ..< 8] = Inr g"
    by (simp add: av_growth_def)
  from map_err_upt [OF m] assms(3) have
    "(case int_or_zero ((d ! (i + 4)) field) of
        Inl e \<Rightarrow> Inl e
      | Inr year_ago \<Rightarrow> av_yoy (if i < length currents then currents ! i else 0) year_ago)
     = Inr (g ! i)"
    by (simp add: Let_def)
  with True show ?thesis
    by (cases "int_or_zero ((d ! (i + 4)) field)") auto
next
  case False
  with assms(1,2) have m: "map_err (\<lambda>i. let current = currents ! i
                     in case int_or_zero ((d ! (i + 4)) field) of
                          Inl e \<Rightarrow> Inl e
                        | Inr year_ago \<Rightarrow> av_yoy current year_ago) [0 ..< 4] = Inr g"
    by (simp add: av_growth_def)
  from map_err_upt [OF m] assms(3) have
    "(case int_or_zero ((d ! (i + 4)) field) of
        Inl e \<Rightarrow> Inl e
      | Inr year_ago \<Rightarrow> av_yoy (currents ! i) year_ago)
     = Inr (g ! i)"
    by (simp add: Let_def)
  with False show ?thesis
    by (cases "int_or_zero ((d ! (i + 4)) field)") auto
qed

lemma int_true_div_Inr:
  "int_true_div a b = Inr q \<Longrightarrow> b \<noteq> 0 \<and> q = round_double (of_int a / of_int b)"
  by (auto simp: int_true_div_def split: if_splits npfloat.splits)

text \<open>
  Rounding at work: a tenth, a third, the two integers next to \<open>2^53 + 2\<close> (ties
  go to the even neighbour), a rounded product, and a division by zero.
\<close>

lemma round_double_examples:
  "round_double (1/10) = Fin (3602879701896397 / 36028797018963968)
   \<and> round_double 20 = Fin 20
   \<and> round_double (- (1/3)) = Fin (- (6004799503160661 / 18014398509481984))
   \<and> round_double 9007199254740993 = Fin 9007199254740992
   \<and> round_double 9007199254740995 = Fin 9007199254740996
   \<and> f64_mul (Fin (3602879701896397 / 36028797018963968)) (Fin 3)
        = Fin (1351079888211149 / 4503599627370496)
   \<and> f64_div (Fin 1) (Fin 0) = PInf
   \<and> int_true_div 3 45 = Inr (Fin (4803839602528529 / 72057594037927936))"
  by code_simp

section \<open>Lemmas on the key-bar columns\<close>

lemma large_change_iff:
  "np_gt (np_abs (change_pct b)) (Fin (3/2)) \<longleftrightarrow> large_change b"
  by (auto simp: change_pct_def large_change_def)

lemma foldl_np_add_Fin:
  "foldl np_add (Fin a) (map (\<lambda>b. Fin (f b)) ys) = Fin (a + sum_list (map f ys))"
  by (induction ys arbitrary: a) (simp_all add: add.assoc)

lemma list_ex_isna_Fin: "\<not> list_ex isna (map (\<lambda>b. Fin (f b)) ys)"
  by (induction ys) simp_all

lemma window_map: "window w i (map f xs) = map f (window w i xs)"
  by (simp add: window_def take_map drop_map)

lemma sum_list_window:
  assumes "w \<le> i + 1" and "i < length xs"
  shows "sum_list (map f (window w i xs)) = (\<Sum>j = i + 1 - w ..< i + 1. f (xs ! j))"
proof -
  have len: "length (window w i xs) = w"
    using assms by (simp add: window_def)
  have "sum_list (map f (window w i xs)) = (\<Sum>k = 0 ..< w. f (window w i xs ! k))"
    using len by (simp add: sum_list_sum_nth)
  also have "\<dots> = (\<Sum>k = 0 ..< w. f (xs ! (i + 1 - w + k)))"
    using assms by (intro sum.cong) (simp_all add: window_def)
  also have "\<dots> = (\<Sum>j = i + 1 - w ..< i + 1. f (xs ! j))"
    using assms sum.shift_bounds_nat_ivl [of "\<lambda>j. f (xs ! j)" 0 "i + 1 - w" w]
    by (simp add: add.commute)
  finally show ?thesis .
qed

lemma rolling_mean_nth:
  assumes "i < length bs"
  shows "rolling_mean 30 (map (\<lambda>b. Fin (f b)) bs) ! i =
           (if i < 29 then NaN else Fin ((\<Sum>j = i - 29 ..< i + 1. f (bs ! j)) / 30))"
proof (cases "i < 29")
  case True
  with assms show ?thesis by (simp add: rolling_mean_def)
next
  case False
  then have w: "30 \<le> i + 1" by simp
  have "rolling_mean 30 (map (\<lambda>b. Fin (f b)) bs) ! i
          = np_div (foldl np_add (Fin 0) (map (\<lambda>b. Fin (f b)) (window 30 i bs))) (Fin 30)"
    using assms False list_ex_isna_Fin [of f "window 30 i bs"]
    by (simp add: rolling_mean_def window_map)
  also have "\<dots> = Fin (sum_list (map f (window 30 i bs)) / 30)"
    by (simp add: foldl_np_add_Fin)
  also have "sum_list (map f (window 30 i bs)) = (\<Sum>j = i - 29 ..< i + 1. f (bs ! j))"
    using sum_list_window [OF w assms, of f] by simp
  finally show ?thesis using False by simp
qed

lemma np_maximum_Fin:
  "ys \<noteq> [] \<Longrightarrow> \<exists>m. np_maximum (map (\<lambda>b. Fin (f b)) ys) = Fin m
                    \<and> (\<forall>h. m < h \<longleftrightarrow> (\<forall>y \<in> set ys. f y < h))"
proof (induction ys)
  case Nil
  then show ?case by simp
next
  case (Cons y ys)
  show ?case
  proof (cases ys)
    case Nil
    then show ?thesis by simp
  next
    case (Cons z zs)
    then have "ys \<noteq> []" by simp
    from Cons.IH [OF this] obtain m where
      m: "np_maximum (map (\<lambda>b. Fin (f b)) ys) = Fin m"
      and mx: "\<And>h. m < h \<longleftrightarrow> (\<forall>y \<in> set ys. f y < h)"
      by blast
    have e: "np_maximum (map (\<lambda>b. Fin (f b)) (y # ys)) = Fin (if f y < m then m else f y)"
      using Cons m by (simp add: Let_def)
    have "(if f y < m then m else f y) < h \<longleftrightarrow> (\<forall>x \<in> set (y # ys). f x < h)" for h
    proof (cases "f y < m")
      case True
      then have "m < h \<longleftrightarrow> f y < h \<and> m < h" by auto
      with True show ?thesis by (simp add: mx [symmetric])
    next
      case False
      then have "f y < h \<longleftrightarrow> f y < h \<and> m < h" by auto
      with False show ?thesis by (simp add: mx [symmetric])
    qed
    with e show ?thesis by blast
  qed
qed

lemma np_gt_maximum:
  "np_gt (Fin h) (np_maximum (map (\<lambda>b. Fin (f b)) ys)) \<longleftrightarrow> ys \<noteq> [] \<and> (\<forall>y \<in> set ys. f y < h)"
proof (induction ys)
  case Nil
  show ?case by simp
next
  case (Cons y ys)
  show ?case
  proof (cases ys)
    case Nil
    then show ?thesis by simp
  next
    case (Cons z zs)
    obtain m where m: "np_maximum (map (\<lambda>b. Fin (f b)) ys) = Fin m"
      and mx: "\<And>h. m < h \<longleftrightarrow> (\<forall>y \<in> set ys. f y < h)"
      using np_maximum_Fin [of ys f] Cons by auto
    show ?thesis
      using Cons m mx [of h] by (auto simp: Let_def)
  qed
qed

lemma shift1_length: "length (shift1 xs) = length xs"
  by (simp add: shift1_def)

lemma window_shift1:
  assumes "5 \<le> i" and "i < length xs"
  shows "window 5 i (shift1 xs) = window 5 (i - 1) xs"
proof -
  from assms have ne: "xs \<noteq> []" by auto
  from assms have d: "i - 4 = Suc (i - 5)" by simp
  have "window 5 i (shift1 xs) = take 5 (drop (i - 5) (butlast xs))"
    using ne by (simp add: window_def shift1_def d)
  also have "\<dots> = take 5 (drop (i - 5) xs)"
  proof -
    from assms have m: "min 5 (length xs - 1 - (i - 5)) = 5" by auto
    show ?thesis by (simp only: butlast_conv_take drop_take take_take m)
  qed
  also have "\<dots> = window 5 (i - 1) xs"
    using assms by (simp add: window_def)
  finally show ?thesis .
qed

lemma window_shift1_nan:
  assumes "i = 4" and "i < length xs"
  shows "list_ex isna (window 5 i (shift1 xs))"
  using assms by (auto simp: window_def shift1_def)

lemma all_window:
  assumes "w \<le> i + 1" and "i < length xs"
  shows "(\<forall>y \<in> set (window w i xs). P y) \<longleftrightarrow> (\<forall>j \<in> {i + 1 - w ..< i + 1}. P (xs ! j))"
proof -
  have len: "length (window w i xs) = w"
    using assms by (simp add: window_def)
  have nth: "window w i xs ! k = xs ! (i + 1 - w + k)" if "k < w" for k
    using assms that by (simp add: window_def)
  show ?thesis
  proof
    assume a: "\<forall>y \<in> set (window w i xs). P y"
    show "\<forall>j \<in> {i + 1 - w ..< i + 1}. P (xs ! j)"
    proof
      fix j assume j: "j \<in> {i + 1 - w ..< i + 1}"
      then have k: "j - (i + 1 - w) < w" using assms by auto
      with len have "window w i xs ! (j - (i + 1 - w)) \<in> set (window w i xs)"
        by (intro nth_mem) simp
      with a have "P (window w i xs ! (j - (i + 1 - w)))" by blast
      with nth [OF k] j show "P (xs ! j)" by simp
    qed
  next
    assume a: "\<forall>j \<in> {i + 1 - w ..< i + 1}. P (xs ! j)"
    show "\<forall>y \<in> set (window w i xs). P y"
    proof
      fix y assume "y \<in> set (window w i xs)"
      then obtain k where k: "k < w" and y: "y = window w i xs ! k"
        using len by (auto simp: in_set_conv_nth)
      from k assms have "i + 1 - w + k \<in> {i + 1 - w ..< i + 1}" by auto
      with a have "P (xs ! (i + 1 - w + k))" by blast
      with nth [OF k] y show "P y" by simp
    qed
  qed
qed

lemma new_high_iff:
  assumes "i < length bs"
  shows "np_gt (Fin (f (bs ! i))) (rolling_max 5 (shift1 (map (\<lambda>b. Fin (f b)) bs)) ! i)
           \<longleftrightarrow> 5 \<le> i \<and> (\<forall>j \<in> {i - 5 ..< i}. f (bs ! j) < f (bs ! i))"
proof -
  let ?xs = "map (\<lambda>b. Fin (f b)) bs"
  from assms have il: "i < length (shift1 ?xs)" by (simp add: shift1_length)
  consider "i < 4" | "i = 4" | "5 \<le> i" by linarith
  then show ?thesis
  proof cases
    case 1
    with il show ?thesis by (simp add: rolling_max_def)
  next
    case 2
    with assms have "list_ex isna (window 5 i (shift1 ?xs))"
      by (intro window_shift1_nan) simp_all
    with il 2 show ?thesis by (simp add: rolling_max_def)
  next
    case 3
    with assms have w: "window 5 i (shift1 ?xs) = map (\<lambda>b. Fin (f b)) (window 5 (i - 1) bs)"
      by (simp add: window_shift1 window_map)
    from 3 assms have l: "5 \<le> (i - 1) + 1" "i - 1 < length bs" by simp_all
    then have ne: "window 5 (i - 1) bs \<noteq> []" by (auto simp: window_def)
    have "rolling_max 5 (shift1 ?xs) ! i = np_maximum (map (\<lambda>b. Fin (f b)) (window 5 (i - 1) bs))"
      using il 3 list_ex_isna_Fin [of f "window 5 (i - 1) bs"]
      by (simp add: rolling_max_def w del: shift1_length)
    then have "np_gt (Fin (f (bs ! i))) (rolling_max 5 (shift1 ?xs) ! i)
                 \<longleftrightarrow> (\<forall>y \<in> set (window 5 (i - 1) bs). f y < f (bs ! i))"
      using ne by (simp add: np_gt_maximum)
    also have "\<dots> \<longleftrightarrow> (\<forall>j \<in> {i - 1 + 1 - 5 ..< i - 1 + 1}. f (bs ! j) < f (bs ! i))"
      by (rule all_window [OF l])
    finally show ?thesis using 3 by simp
  qed
qed


lemma volume_iff:
  assumes "i < length bs"
  shows "np_gt (Fin (Volume (bs ! i))) (rolling_mean 30 (map (\<lambda>b. Fin (Volume b)) bs) ! i)
           \<longleftrightarrow> volume_above_average bs i"
  using rolling_mean_nth [OF assms, of Volume]
  by (auto simp: volume_above_average_def)

lemma filter_upt_last:
  assumes "filter P [a ..< n] \<noteq> []"
  shows "a \<le> last (filter P [a ..< n]) \<and> last (filter P [a ..< n]) < n
       \<and> P (last (filter P [a ..< n]))
       \<and> (\<forall>j. last (filter P [a ..< n]) < j \<and> j < n \<longrightarrow> \<not> P j)"
  using assms
proof (induction n)
  case 0
  then show ?case by simp
next
  case (Suc n)
  show ?case
  proof (cases "a \<le> n")
    case False
    with Suc.prems show ?thesis by simp
  next
    case True
    then have u: "[a ..< Suc n] = [a ..< n] @ [n]" by simp
    show ?thesis
    proof (cases "P n")
      case True
      then have l: "last (filter P [a ..< Suc n]) = n" unfolding u by simp
      have "\<forall>j. n < j \<and> j < Suc n \<longrightarrow> \<not> P j" using not_less_eq by blast
      with True \<open>a \<le> n\<close> show ?thesis unfolding l by simp
    next
      case False
      with u have f: "filter P [a ..< Suc n] = filter P [a ..< n]" by simp
      with Suc.prems have "filter P [a ..< n] \<noteq> []" by simp
      from Suc.IH [OF this] have
        1: "a \<le> last (filter P [a ..< n])" and 2: "last (filter P [a ..< n]) < n"
        and 3: "P (last (filter P [a ..< n]))"
        and 4: "\<And>j. last (filter P [a ..< n]) < j \<Longrightarrow> j < n \<Longrightarrow> \<not> P j"
        by blast+
      have 5: "\<not> P j" if "last (filter P [a ..< n]) < j" and "j < Suc n" for j
      proof (cases "j = n")
        case True
        with False show ?thesis by simp
      next
        case False
        with that(2) have "j < n" by simp
        with that(1) show ?thesis by (rule 4)
      qed
      from 2 have 6: "last (filter P [a ..< n]) < Suc n" by simp
      from 1 6 3 5 show ?thesis unfolding f by blast
    qed
  qed
qed

lemma assigned_Some: "assigned (Some xs) = xs"
  by (simp add: assigned_def)

lemma key_bar_flags_nth:
  assumes "Volume_SMA30 d = Some (rolling_mean 30 (col Volume d))"
    and "Open_Close_Change_Pct d = Some (map change_pct (rows d))"
    and "High_5D_Previous d = Some (rolling_max 5 (shift1 (col High d)))"
    and i: "i < length (rows d)"
  shows "key_bar_flags d ! i \<longleftrightarrow> is_key_bar (rows d) i"
proof -
  have "key_bar_flags d ! i \<longleftrightarrow>
          np_gt (Fin (Volume (rows d ! i))) (rolling_mean 30 (map (\<lambda>b. Fin (Volume b)) (rows d)) ! i)
        \<and> np_gt (np_abs (change_pct (rows d ! i))) (Fin (3/2))
        \<and> np_gt (Fin (High (rows d ! i)))
              (rolling_max 5 (shift1 (map (\<lambda>b. Fin (High b)) (rows d))) ! i)"
    using i unfolding key_bar_flags_def assms(1,2,3) assigned_Some col_def by simp
  then show ?thesis
    unfolding volume_iff [OF i] large_change_iff new_high_iff [OF i, of High]
    by (simp only: is_key_bar_def new_high_def)
qed

lemma key_bar_flags_length: "length (key_bar_flags d) = length (rows d)"
  by (simp add: key_bar_flags_def)

lemma key_bar_flags_Is_Key_Bar: "key_bar_flags (d\<lparr>Is_Key_Bar := x\<rparr>) = key_bar_flags d"
  by (simp add: key_bar_flags_def col_def)

lemma detect_key_bars_Some:
  assumes "30 \<le> length (rows (h ! r))"
  shows "\<exists>d. detect_key_bars h (Some r)
           = (h @ [d], Some (length h),
              (if filter (\<lambda>i. key_bar_flags d ! i)
                    [length (rows d) - 10 ..< length (rows d)] \<noteq> []
               then Some (last (filter (\<lambda>i. key_bar_flags d ! i)
                                 [length (rows d) - 10 ..< length (rows d)]))
               else None))
       \<and> rows d = rows (h ! r)
       \<and> Volume_SMA30 d = Some (rolling_mean 30 (col Volume d))
       \<and> Open_Close_Change_Pct d = Some (map change_pct (rows d))
       \<and> High_5D_Previous d = Some (rolling_max 5 (shift1 (col High d)))
       \<and> Is_Key_Bar d = Some (key_bar_flags d)"
proof -
  let ?d4 = "(h ! r)\<lparr>Volume_SMA30 := Some (rolling_mean 30 (col Volume (h ! r))),
                      Open_Close_Change_Pct := Some (map change_pct (rows (h ! r))),
                      High_5D_Previous := Some (rolling_max 5 (shift1 (col High (h ! r))))\<rparr>"
  let ?d = "?d4\<lparr>Is_Key_Bar := Some (key_bar_flags ?d4)\<rparr>"
  have k: "key_bar_flags ?d = key_bar_flags ?d4"
    by (rule key_bar_flags_Is_Key_Bar)
  have e: "detect_key_bars h (Some r)
           = (h @ [?d], Some (length h),
              (if filter (\<lambda>i. key_bar_flags ?d4 ! i)
                    [length (rows (h ! r)) - 10 ..< length (rows (h ! r))] \<noteq> []
               then Some (last (filter (\<lambda>i. key_bar_flags ?d4 ! i)
                                 [length (rows (h ! r)) - 10 ..< length (rows (h ! r))]))
               else None))"
    using assms
    by (simp add: detect_key_bars_def copy_df_def Let_def drop_upt assigned_Some col_def)
  show ?thesis
    by (rule exI [of _ ?d]) (simp only: e k, simp add: col_def)
qed

lemma detect_key_bars_short:
  assumes "length (rows (h ! r)) < 30"
  shows "detect_key_bars h (Some r) = (h, None, None)"
  using assms by (simp add: detect_key_bars_def)

lemma detect_key_bars_None: "detect_key_bars h None = (h, None, None)"
  by (simp add: detect_key_bars_def)

lemma last_filter_upt_iff:
  "(if filter P [a ..< n] \<noteq> [] then Some (last (filter P [a ..< n])) else None) = Some k
     \<longleftrightarrow> a \<le> k \<and> k < n \<and> P k \<and> (\<forall>j. k < j \<and> j < n \<longrightarrow> \<not> P j)"
proof (cases "filter P [a ..< n] = []")
  case True
  then have "\<not> P k" if "a \<le> k" and "k < n" for k
    using that by (simp add: filter_empty_conv)
  then have "\<not> (a \<le> k \<and> k < n \<and> P k \<and> (\<forall>j. k < j \<and> j < n \<longrightarrow> \<not> P j))"
    by blast
  then show ?thesis by (simp only: True not_not if_True if_False option.simps simp_thms)
next
  case False
  let ?l = "last (filter P [a ..< n])"
  from filter_upt_last [OF False] have
    1: "a \<le> ?l" and 2: "?l < n" and 3: "P ?l"
    and 4: "\<And>j. ?l < j \<Longrightarrow> j < n \<Longrightarrow> \<not> P j"
    by blast+
  have u: "k = ?l" if "a \<le> k \<and> k < n \<and> P k \<and> (\<forall>j. k < j \<and> j < n \<longrightarrow> \<not> P j)"
  proof (rule ccontr)
    assume "k \<noteq> ?l"
    then consider "k < ?l" | "?l < k" by linarith
    then show False
    proof cases
      case 1
      with that 2 3 show False by blast
    next
      case 2
      from that have "k < n" "P k" by blast+
      from 4 [OF 2 this(1)] this(2) show False by (rule notE)
    qed
  qed
  have v: "a \<le> ?l \<and> ?l < n \<and> P ?l \<and> (\<forall>j. ?l < j \<and> j < n \<longrightarrow> \<not> P j)"
    using 1 2 3 4 by blast
  have "Some ?l = Some k \<longleftrightarrow> a \<le> k \<and> k < n \<and> P k \<and> (\<forall>j. k < j \<and> j < n \<longrightarrow> \<not> P j)"
  proof
    assume "Some ?l = Some k"
    then have "?l = k" by simp
    with v show "a \<le> k \<and> k < n \<and> P k \<and> (\<forall>j. k < j \<and> j < n \<longrightarrow> \<not> P j)" by simp
  next
    assume "a \<le> k \<and> k < n \<and> P k \<and> (\<forall>j. k < j \<and> j < n \<longrightarrow> \<not> P j)"
    from u [OF this] show "Some ?l = Some k" by simp
  qed
  with False show ?thesis by (simp only: if_True simp_thms)
qed

lemma filter_flags:
  assumes "Volume_SMA30 d = Some (rolling_mean 30 (col Volume d))"
    and "Open_Close_Change_Pct d = Some (map change_pct (rows d))"
    and "High_5D_Previous d = Some (rolling_max 5 (shift1 (col High d)))"
  shows "filter (\<lambda>i. key_bar_flags d ! i) [a ..< length (rows d)]
           = filter (is_key_bar (rows d)) [a ..< length (rows d)]"
  by (rule filter_cong [OF refl]) (simp add: key_bar_flags_nth [OF assms])


lemma detect_key_bars_flags:
  assumes "30 \<le> length (rows (h ! r))"
  shows "\<exists>d. detect_key_bars h (Some r)
           = (h @ [d], Some (length h),
              (if filter (is_key_bar (rows d)) [length (rows d) - 10 ..< length (rows d)] \<noteq> []
               then Some (last (filter (is_key_bar (rows d))
                                  [length (rows d) - 10 ..< length (rows d)]))
               else None))
       \<and> rows d = rows (h ! r)
       \<and> Is_Key_Bar d = Some (key_bar_flags d)
       \<and> (\<forall>i<length (rows d). key_bar_flags d ! i \<longleftrightarrow> is_key_bar (rows d) i)"
proof -
  from detect_key_bars_Some [OF assms] obtain d where
    e: "detect_key_bars h (Some r)
           = (h @ [d], Some (length h),
              (if filter (\<lambda>i. key_bar_flags d ! i)
                    [length (rows d) - 10 ..< length (rows d)] \<noteq> []
               then Some (last (filter (\<lambda>i. key_bar_flags d ! i)
                                 [length (rows d) - 10 ..< length (rows d)]))
               else None))"
    and rw: "rows d = rows (h ! r)"
    and c: "Volume_SMA30 d = Some (rolling_mean 30 (col Volume d))"
      "Open_Close_Change_Pct d = Some (map change_pct (rows d))"
      "High_5D_Previous d = Some (rolling_max 5 (shift1 (col High d)))"
    and k: "Is_Key_Bar d = Some (key_bar_flags d)"
    by blast
  have e': "detect_key_bars h (Some r)
           = (h @ [d], Some (length h),
              (if filter (is_key_bar (rows d)) [length (rows d) - 10 ..< length (rows d)] \<noteq> []
               then Some (last (filter (is_key_bar (rows d))
                                  [length (rows d) - 10 ..< length (rows d)]))
               else None))"
    using e unfolding filter_flags [OF c] .
  have f: "\<forall>i<length (rows d). key_bar_flags d ! i \<longleftrightarrow> is_key_bar (rows d) i"
    using key_bar_flags_nth [OF c] by blast
  from e' rw k f show ?thesis by blast
qed

lemma breakout_length: "length breakout_bars = 31"
  by (simp add: breakout_bars_def)

lemma breakout_is_key_bar: "is_key_bar breakout_bars 30"
  by code_simp

lemma breakout_not_previous: "\<not> volume_above_previous_average breakout_bars 30"
  by code_simp

lemma breakout_detect:
  "\<exists>d. detect_key_bars [new_frame breakout_bars] (Some 0)
          = ([new_frame breakout_bars] @ [d], Some 1, Some 30)
      \<and> rows d = breakout_bars
      \<and> Is_Key_Bar d = Some (key_bar_flags d)
      \<and> key_bar_flags d ! 30"
proof -
  have r: "rows ([new_frame breakout_bars] ! 0) = breakout_bars"
    by (simp add: new_frame_def)
  then have a: "30 \<le> length (rows ([new_frame breakout_bars] ! 0))"
    by (simp add: breakout_length)
  from detect_key_bars_flags [OF a] obtain d where
    e: "detect_key_bars [new_frame breakout_bars] (Some 0)
           = ([new_frame breakout_bars] @ [d], Some (length [new_frame breakout_bars]),
              (if filter (is_key_bar (rows d)) [length (rows d) - 10 ..< length (rows d)] \<noteq> []
               then Some (last (filter (is_key_bar (rows d))
                                  [length (rows d) - 10 ..< length (rows d)]))
               else None))"
    and rw: "rows d = rows ([new_frame breakout_bars] ! 0)"
    and k: "Is_Key_Bar d = Some (key_bar_flags d)"
    and f: "\<forall>i<length (rows d). key_bar_flags d ! i \<longleftrightarrow> is_key_bar (rows d) i"
    by blast
  from rw r have rd: "rows d = breakout_bars" by simp
  have n: "\<forall>j. (30::nat) < j \<and> j < 31 \<longrightarrow> \<not> is_key_bar breakout_bars j"
    by auto
  have kb: "(if filter (is_key_bar breakout_bars) [31 - 10 ..< 31] \<noteq> []
         then Some (last (filter (is_key_bar breakout_bars) [31 - 10 ..< 31])) else None) = Some 30"
    unfolding last_filter_upt_iff using breakout_is_key_bar n by simp
  have l1: "length [new_frame breakout_bars] = 1" by simp
  have e': "detect_key_bars [new_frame breakout_bars] (Some 0)
           = ([new_frame breakout_bars] @ [d], Some 1, Some 30)"
    using e unfolding rd breakout_length kb l1 .
  have "30 < length (rows d)" unfolding rd breakout_length by simp
  from f [rule_format, OF this] breakout_is_key_bar have "key_bar_flags d ! 30"
    unfolding rd by simp
  with e' rd k show ?thesis by blast
qed

section \<open>The sales-growth score\<close>

lemma yahoo_sales_growth_rule:
  assumes "yahoo_sales_growth inc = (score, sales, g)"
  shows "score = (case latest_of g of
                    None \<Rightarrow> 0
                  | Some l \<Rightarrow>
                      if np_gt l (Fin 30) then 1
                      else (case previous_of g of
                              Some p \<Rightarrow> if np_gt l p then 1/2 else 0
                            | None \<Rightarrow> 0)
                         + (if np_gt l (Fin 15) then 1/2 else 0))"
proof (cases "inc ''Total Revenue''")
  case None
  with assms show ?thesis by (simp add: yahoo_sales_growth_def latest_of_def)
next
  case (Some row)
  obtain acc gr where c: "check_growth_acceleration (take 8 row) = (acc, gr)"
    by (cases "check_growth_acceleration (take 8 row)")
  from assms Some c have g: "g = Some (take 4 gr)"
    and sc: "score = (case (if gr \<noteq> [] then gr ! 0 else None) of
                   None \<Rightarrow> 0
                 | Some l \<Rightarrow>
                     if np_gt l (Fin 30) then 1
                     else (if acc then 1/2 else 0) + (if np_gt l (Fin 15) then 1/2 else 0))"
    by (auto simp: yahoo_sales_growth_def Let_def)
  from check_growth_acceleration_cases [OF c] show ?thesis
  proof (elim disjE conjE)
    assume "gr = []"
    with g sc show ?thesis by (simp add: latest_of_def)
  next
    assume gr: "gr = [yoy_block (take 8 row) 0, yoy_block (take 8 row) 1,
                 yoy_block (take 8 row) 2, yoy_block (take 8 row) 3]"
      and acc: "acc \<longleftrightarrow> (\<exists>a b. yoy_block (take 8 row) 0 = Some a
                  \<and> yoy_block (take 8 row) 1 = Some b \<and> np_gt a b)"
    show ?thesis
      unfolding sc g gr using acc
      by (auto simp: latest_of_def previous_of_def split: option.splits)
  qed
qed

lemma av_sales_growth_rule:
  assumes "av_sales_growth d revenues = Inr (score, g)"
  shows "score = (case latest_of (Some g) of
                    None \<Rightarrow> 0
                  | Some l \<Rightarrow>
                      if l > 30 then 1
                      else (case previous_of (Some g) of
                              Some p \<Rightarrow> if l > p then 1/2 else 0
                            | None \<Rightarrow> 0)
                         + (if l > 15 then 1/2 else 0))"
proof -
  from assms have g: "av_growth ''totalRevenue'' d revenues = Inr g"
    and sc: "score = (if length d \<ge> 8 then av_sales_score g else 0)"
    by (auto simp: av_sales_growth_def split: sum.splits)
  from av_growth_length [OF g] have "2 \<le> length g" by (simp split: if_splits)
  note lp = latest_previous_nth [OF this]
  show ?thesis
  proof (cases "8 \<le> length d")
    case True
    with sc lp show ?thesis
      by (auto simp: av_sales_score_def Let_def split: option.splits)
  next
    case False
    with g have "g = [None, None, None, None]" by (simp add: av_growth_def)
    with sc False show ?thesis by (simp add: latest_of_def)
  qed
qed

lemma yahoo_sales_score:
  assumes "calculate_fundamental_scores fund = (sc, det)"
  shows "sales_growth sc =
           (case latest_of (d_sales_growth det) of
              None \<Rightarrow> 0
            | Some l \<Rightarrow>
                if np_gt l (Fin 30) then 1
                else (case previous_of (d_sales_growth det) of
                        Some p \<Rightarrow> if np_gt l p then 1/2 else 0
                      | None \<Rightarrow> 0)
                   + (if np_gt l (Fin 15) then 1/2 else 0))"
proof (cases fund)
  case None
  with assms show ?thesis
    by (auto simp: calculate_fundamental_scores_def no_scores_def no_details_def latest_of_def)
next
  case (Some fd)
  obtain s sales g where y: "yahoo_sales_growth (income fd) = (s, sales, g)"
    by (cases "yahoo_sales_growth (income fd)")
  with assms Some have eq: "s = sales_growth sc" "g = d_sales_growth det"
    by (auto simp: calculate_fundamental_scores_def Let_def split: prod.splits)
  from yahoo_sales_growth_rule [OF y] show ?thesis unfolding eq .
qed

lemma av_sales_score_rule:
  assumes "calculate_alpha_vantage_fundamentals d = Inr (sc, det)"
  shows "sales_growth sc =
           (case latest_of (d_sales_growth det) of
              None \<Rightarrow> 0
            | Some l \<Rightarrow>
                if l > 30 then 1
                else (case previous_of (d_sales_growth det) of
                        Some p \<Rightarrow> if l > p then 1/2 else 0
                      | None \<Rightarrow> 0)
                   + (if l > 15 then 1/2 else 0))"
proof (cases "4 \<le> length d")
  case True
  from calculate_av_Inr [OF assms True] obtain revenues sg where
    r: "av_sales_growth d revenues = Inr (sales_growth sc, sg)"
    and eq: "Some sg = d_sales_growth det"
    by auto
  from av_sales_growth_rule [OF r] show ?thesis unfolding eq .
next
  case False
  with assms calculate_av_short [of d] show ?thesis
    by (auto simp: no_scores_def no_details_def latest_of_def)
qed

text \<open>
  C5, as the claim states it, fails: revenue that grew 20 per cent over the year,
  after 0 per cent in the quarter before, scores 1.0 on both paths although the
  latest growth does not exceed 30 per cent.
\<close>

theorem sales_growth_full_score_below_30:
  "sales_growth (fst (calculate_fundamental_scores (Some growth_fund))) = 1
   \<and> latest_of (d_sales_growth (snd (calculate_fundamental_scores (Some growth_fund))))
       = Some (Fin 20)
   \<and> \<not> np_gt (Fin 20) (Fin 30)
   \<and> calculate_alpha_vantage_fundamentals growth_reports = Inr growth_reports_result
   \<and> sales_growth (fst growth_reports_result) = 1
   \<and> latest_of (d_sales_growth (snd growth_reports_result)) = Some 20"
  by code_simp

text \<open>
  C5, amended.  On both provider paths the sales-growth score is 0, 0.5 or 1.0.
  With \<open>latest\<close> and \<open>previous\<close> the first two year-over-year rates that the
  scorer reports: the score is 0 when \<open>latest\<close> is null; it is 1.0 whenever
  \<open>latest\<close> exceeds 30; otherwise it is 0.5 if \<open>latest\<close> exceeds \<open>previous\<close>
  (both non-null) plus 0.5 if \<open>latest\<close> exceeds 15.  Hence the score is 1.0 exactly
  when \<open>latest\<close> exceeds 30, or exceeds 15 and \<open>previous\<close>.
\<close>

theorem sales_growth_score:
  assumes "calculate_fundamental_scores fund = (ysc, ydet)"
      and "calculate_alpha_vantage_fundamentals income_data = Inr (asc, adet)"
  shows "graded (sales_growth ysc) \<and> graded (sales_growth asc)
     \<and> sales_growth ysc =
           (case latest_of (d_sales_growth ydet) of
              None \<Rightarrow> 0
            | Some l \<Rightarrow>
                if np_gt l (Fin 30) then 1
                else (case previous_of (d_sales_growth ydet) of
                        Some p \<Rightarrow> if np_gt l p then 1/2 else 0
                      | None \<Rightarrow> 0)
                   + (if np_gt l (Fin 15) then 1/2 else 0))
     \<and> sales_growth asc =
           (case latest_of (d_sales_growth adet) of
              None \<Rightarrow> 0
            | Some l \<Rightarrow>
                if l > 30 then 1
                else (case previous_of (d_sales_growth adet) of
                        Some p \<Rightarrow> if l > p then 1/2 else 0
                      | None \<Rightarrow> 0)
                   + (if l > 15 then 1/2 else 0))
     \<and> (sales_growth ysc = 1 \<longleftrightarrow>
          (\<exists>l. latest_of (d_sales_growth ydet) = Some l
             \<and> (np_gt l (Fin 30)
                \<or> np_gt l (Fin 15)
                  \<and> (\<exists>p. previous_of (d_sales_growth ydet) = Some p \<and> np_gt l p))))
     \<and> (sales_growth asc = 1 \<longleftrightarrow>
          (\<exists>l. latest_of (d_sales_growth adet) = Some l
             \<and> (l > 30 \<or> l > 15 \<and> (\<exists>p. previous_of (d_sales_growth adet) = Some p \<and> l > p))))"
proof -
  note y = yahoo_sales_score [OF assms(1)]
  note a = av_sales_score_rule [OF assms(2)]
  have gy: "graded (sales_growth ysc)"
    unfolding y by (auto simp: graded_def split: option.splits)
  have ga: "graded (sales_growth asc)"
    unfolding a by (auto simp: graded_def split: option.splits)
  have oy: "sales_growth ysc = 1 \<longleftrightarrow>
          (\<exists>l. latest_of (d_sales_growth ydet) = Some l
             \<and> (np_gt l (Fin 30)
                \<or> np_gt l (Fin 15)
                  \<and> (\<exists>p. previous_of (d_sales_growth ydet) = Some p \<and> np_gt l p)))"
    unfolding y by (auto split: option.splits)
  have oa: "sales_growth asc = 1 \<longleftrightarrow>
          (\<exists>l. latest_of (d_sales_growth adet) = Some l
             \<and> (l > 30 \<or> l > 15 \<and> (\<exists>p. previous_of (d_sales_growth adet) = Some p \<and> l > p)))"
    unfolding a by (auto split: option.splits)
  from gy ga y a oy oa show ?thesis by blast
qed

theorem sales_growth_score_witness:
  "calculate_alpha_vantage_fundamentals growth_reports = Inr growth_reports_result
   \<and> graded (sales_growth (fst (calculate_fundamental_scores (Some growth_fund))))
   \<and> graded (sales_growth (fst growth_reports_result))
   \<and> (sales_growth (fst growth_reports_result) = 1 \<longleftrightarrow>
          (\<exists>l. latest_of (d_sales_growth (snd growth_reports_result)) = Some l
             \<and> (l > 30 \<or> l > 15
                  \<and> (\<exists>p. previous_of (d_sales_growth (snd growth_reports_result)) = Some p
                         \<and> l > p))))"
proof -
  have a0: "calculate_alpha_vantage_fundamentals growth_reports = Inr growth_reports_result"
    by code_simp
  then have a: "calculate_alpha_vantage_fundamentals growth_reports
             = Inr (fst growth_reports_result, snd growth_reports_result)"
    by simp
  have y: "calculate_fundamental_scores (Some growth_fund)
             = (fst (calculate_fundamental_scores (Some growth_fund)),
                snd (calculate_fundamental_scores (Some growth_fund)))"
    by simp
  from sales_growth_score [OF y a] a0 show ?thesis by blast
qed

section \<open>The year-over-year growth points\<close>

lemma av_yoy_formula:
  "av_yoy c y = Inr v \<Longrightarrow>
     v = (if c \<noteq> 0 \<and> y \<noteq> 0
          then Some ((of_int c - of_int y) / \<bar>of_int y\<bar> * 100) else None)"
  by (auto simp: av_yoy_def split: if_splits sum.splits)

lemma av_details_growth:
  assumes "calculate_alpha_vantage_fundamentals d = Inr (sc, det)" and "8 \<le> length d"
  shows "\<exists>g. d_sales_growth det = Some g \<and> length g = (if 12 \<le> length d then 8 else 4)
           \<and> (\<forall>i<length g. \<exists>c y.
                  int_or_zero ((d ! i) ''totalRevenue'') = Inr c
                \<and> int_or_zero ((d ! (i + 4)) ''totalRevenue'') = Inr y
                \<and> g ! i = (if c \<noteq> 0 \<and> y \<noteq> 0
                           then Some ((of_int c - of_int y) / \<bar>of_int y\<bar> * 100)
                           else None))"
proof -
  from assms(2) have "4 \<le> length d" by simp
  from calculate_av_Inr [OF assms(1) this] obtain revenues sg where
    e: "extract_field ''totalRevenue'' d = Inr revenues"
    and s: "av_sales_growth d revenues = Inr (sales_growth sc, sg)"
    and dg: "d_sales_growth det = Some sg"
    by auto
  from s have g: "av_growth ''totalRevenue'' d revenues = Inr sg"
    by (auto simp: av_sales_growth_def split: sum.splits)
  note len = av_growth_length [OF g]
  from extract_field_nth [OF e] assms(2) have
    lr: "length revenues = 8"
    and nr: "\<And>i. i < 8 \<Longrightarrow> int_or_zero ((d ! i) ''totalRevenue'') = Inr (revenues ! i)"
    by auto
  have "\<exists>c y. int_or_zero ((d ! i) ''totalRevenue'') = Inr c
            \<and> int_or_zero ((d ! (i + 4)) ''totalRevenue'') = Inr y
            \<and> sg ! i = (if c \<noteq> 0 \<and> y \<noteq> 0
                        then Some ((of_int c - of_int y) / \<bar>of_int y\<bar> * 100)
                        else None)" if "i < length sg" for i
  proof -
    from that len have i8: "i < 8" by (simp split: if_splits)
    from av_growth_nth [OF g assms(2) that] lr i8 obtain y where
      y: "int_or_zero ((d ! (i + 4)) ''totalRevenue'') = Inr y"
      and "av_yoy (revenues ! i) y = Inr (sg ! i)"
      by auto
    from av_yoy_formula [OF this(2)] y nr [OF i8] show ?thesis by blast
  qed
  with dg len show ?thesis by blast
qed

lemma av_details_growth_few:
  assumes "calculate_alpha_vantage_fundamentals d = Inr (sc, det)"
    and "4 \<le> length d" and "length d < 8"
  shows "d_sales_growth det = Some [None, None, None, None]"
proof -
  from calculate_av_Inr [OF assms(1,2)] obtain revenues sg where
    s: "av_sales_growth d revenues = Inr (sales_growth sc, sg)"
    and dg: "d_sales_growth det = Some sg"
    by auto
  from s assms(3) have "sg = [None, None, None, None]"
    by (auto simp: av_sales_growth_def av_growth_def split: sum.splits)
  with dg show ?thesis by simp
qed

text \<open>
  C2, as the claim states it, fails.  A series of five quarters has a first
  year-over-year point of 20 per cent by the claim's formula, but the Alpha Vantage
  path computes no point at all below eight quarters; and on a series of nine
  quarters \<open>check_growth_acceleration\<close> returns four points, not the five that
  the offsets below \<open>min(9 - 4, 8)\<close> would give.
\<close>

theorem growth_points_missing:
  "length five_reports = 5
   \<and> calculate_alpha_vantage_fundamentals five_reports = Inr five_reports_result
   \<and> d_sales (snd five_reports_result) = Some [120, 100, 100, 100, 100]
   \<and> d_sales_growth (snd five_reports_result) = Some [None, None, None, None]
   \<and> length nine_values = 9
   \<and> length (snd (check_growth_acceleration nine_values)) = 4"
  by code_simp

text \<open>
  C2, amended.  \<open>check_growth_acceleration\<close> returns no point for a series of
  fewer than five values and exactly four entries otherwise, for the offsets 0 to
  3.  The entry at offset \<open>i\<close> is \<open>(series[i] - series[i+4]) / abs(series[i+4]) * 100\<close>
  when both values exist, are finite and are not zero; it is null when the series has
  no value at \<open>i + 4\<close>, when that value is zero or missing, or when the value at
  \<open>i\<close> is missing.  The Alpha Vantage path reports eight points from twelve
  quarters on and four from eight quarters on, each by the same formula and null
  when either value is zero (a missing field counts as zero); with four to seven
  quarters it reports four nulls and with fewer nothing.  So a series of at least
  five values with finite non-zero values at offsets 0 and 4 yields a first point on
  the primary path, and on the secondary path only from eight quarters on.
\<close>

theorem growth_points:
  assumes "calculate_alpha_vantage_fundamentals d = Inr (sc, det)"
  shows "(length vs < 5 \<longrightarrow> snd (check_growth_acceleration vs) = [])
     \<and> (5 \<le> length vs \<longrightarrow>
          length (snd (check_growth_acceleration vs)) = 4
        \<and> (\<forall>i<4.
              (\<forall>a b. i + 4 < length vs \<and> vs ! i = Fin a \<and> vs ! (i + 4) = Fin b
                       \<and> a \<noteq> 0 \<and> b \<noteq> 0
                 \<longrightarrow> snd (check_growth_acceleration vs) ! i = Some (Fin ((a - b) / \<bar>b\<bar> * 100)))
            \<and> (length vs \<le> i + 4 \<or> vs ! (i + 4) = Fin 0 \<or> isna (vs ! (i + 4)) \<or> isna (vs ! i)
                 \<longrightarrow> snd (check_growth_acceleration vs) ! i = None)))
     \<and> (8 \<le> length d \<longrightarrow>
          (\<exists>g. d_sales_growth det = Some g
              \<and> length g = (if 12 \<le> length d then 8 else 4)
              \<and> (\<forall>i<length g. \<exists>c y.
                     int_or_zero ((d ! i) ''totalRevenue'') = Inr c
                   \<and> int_or_zero ((d ! (i + 4)) ''totalRevenue'') = Inr y
                   \<and> g ! i = (if c \<noteq> 0 \<and> y \<noteq> 0
                              then Some ((of_int c - of_int y) / \<bar>of_int y\<bar> * 100)
                              else None))))
     \<and> (4 \<le> length d \<and> length d < 8 \<longrightarrow> d_sales_growth det = Some [None, None, None, None])
     \<and> (length d < 4 \<longrightarrow> d_sales_growth det = None)"
proof -
  have 1: "length vs < 5 \<longrightarrow> snd (check_growth_acceleration vs) = []"
    by (simp add: check_growth_acceleration_def)
  have 2: "5 \<le> length vs \<longrightarrow>
          length (snd (check_growth_acceleration vs)) = 4
        \<and> (\<forall>i<4.
              (\<forall>a b. i + 4 < length vs \<and> vs ! i = Fin a \<and> vs ! (i + 4) = Fin b
                       \<and> a \<noteq> 0 \<and> b \<noteq> 0
                 \<longrightarrow> snd (check_growth_acceleration vs) ! i = Some (Fin ((a - b) / \<bar>b\<bar> * 100)))
            \<and> (length vs \<le> i + 4 \<or> vs ! (i + 4) = Fin 0 \<or> isna (vs ! (i + 4)) \<or> isna (vs ! i)
                 \<longrightarrow> snd (check_growth_acceleration vs) ! i = None))"
  proof
    assume "5 \<le> length vs"
    note r = check_growth_acceleration_rates [OF this]
    have n: "snd (check_growth_acceleration vs) ! i = yoy_block vs i" if "i < 4" for i
      unfolding r using nth_four [OF that, of "yoy_block vs"] .
    show "length (snd (check_growth_acceleration vs)) = 4
        \<and> (\<forall>i<4.
              (\<forall>a b. i + 4 < length vs \<and> vs ! i = Fin a \<and> vs ! (i + 4) = Fin b
                       \<and> a \<noteq> 0 \<and> b \<noteq> 0
                 \<longrightarrow> snd (check_growth_acceleration vs) ! i = Some (Fin ((a - b) / \<bar>b\<bar> * 100)))
            \<and> (length vs \<le> i + 4 \<or> vs ! (i + 4) = Fin 0 \<or> isna (vs ! (i + 4)) \<or> isna (vs ! i)
                 \<longrightarrow> snd (check_growth_acceleration vs) ! i = None))"
      using n yoy_block_Fin [of _ vs] yoy_block_None [of vs] by (simp add: r)
  qed
  have 3: "8 \<le> length d \<longrightarrow>
          (\<exists>g. d_sales_growth det = Some g
              \<and> length g = (if 12 \<le> length d then 8 else 4)
              \<and> (\<forall>i<length g. \<exists>c y.
                     int_or_zero ((d ! i) ''totalRevenue'') = Inr c
                   \<and> int_or_zero ((d ! (i + 4)) ''totalRevenue'') = Inr y
                   \<and> g ! i = (if c \<noteq> 0 \<and> y \<noteq> 0
                              then Some ((of_int c - of_int y) / \<bar>of_int y\<bar> * 100)
                              else None)))"
    using av_details_growth [OF assms] by blast
  have 4: "4 \<le> length d \<and> length d < 8 \<longrightarrow> d_sales_growth det = Some [None, None, None, None]"
    using av_details_growth_few [OF assms] by blast
  have 5: "length d < 4 \<longrightarrow> d_sales_growth det = None"
    using assms calculate_av_short [of d] by (auto simp: no_details_def)
  from 1 2 3 4 5 show ?thesis by blast
qed

theorem growth_points_witness:
  "calculate_alpha_vantage_fundamentals growth_reports = Inr growth_reports_result
   \<and> 5 \<le> length growth_values \<and> 8 \<le> length growth_reports
   \<and> length (snd (check_growth_acceleration growth_values)) = 4
   \<and> snd (check_growth_acceleration growth_values) ! 0 = Some (Fin 20)
   \<and> snd (check_growth_acceleration growth_values) ! 2 = None
   \<and> (\<exists>g. d_sales_growth (snd growth_reports_result) = Some g \<and> length g = 4)"
proof -
  have a0: "calculate_alpha_vantage_fundamentals growth_reports = Inr growth_reports_result"
    by code_simp
  then have a: "calculate_alpha_vantage_fundamentals growth_reports
             = Inr (fst growth_reports_result, snd growth_reports_result)"
    by simp
  have l: "5 \<le> length growth_values" "8 \<le> length growth_reports" "\<not> 12 \<le> length growth_reports"
    by (simp_all add: growth_values_def growth_reports_def)
  note t = growth_points [OF a, of growth_values]
  from t l(1) have len: "length (snd (check_growth_acceleration growth_values)) = 4"
    and pts: "\<forall>i<4.
              (\<forall>a b. i + 4 < length growth_values \<and> growth_values ! i = Fin a
                       \<and> growth_values ! (i + 4) = Fin b \<and> a \<noteq> 0 \<and> b \<noteq> 0
                 \<longrightarrow> snd (check_growth_acceleration growth_values) ! i
                       = Some (Fin ((a - b) / \<bar>b\<bar> * 100)))
            \<and> (length growth_values \<le> i + 4 \<or> growth_values ! (i + 4) = Fin 0
                  \<or> isna (growth_values ! (i + 4)) \<or> isna (growth_values ! i)
                 \<longrightarrow> snd (check_growth_acceleration growth_values) ! i = None)"
    by blast+
  have i0: "(0::nat) < 4" and i2: "(2::nat) < 4" by simp_all
  from pts i0 have "0 + 4 < length growth_values \<and> growth_values ! 0 = Fin 120
                   \<and> growth_values ! (0 + 4) = Fin 100 \<and> (120::rat) \<noteq> 0 \<and> (100::rat) \<noteq> 0
                 \<longrightarrow> snd (check_growth_acceleration growth_values) ! 0
                       = Some (Fin ((120 - 100) / \<bar>100\<bar> * 100))"
    by blast
  then have p0: "snd (check_growth_acceleration growth_values) ! 0 = Some (Fin 20)"
    by (simp add: growth_values_def)
  from pts i2 have "length growth_values \<le> 2 + 4
                 \<longrightarrow> snd (check_growth_acceleration growth_values) ! 2 = None"
    by blast
  then have p2: "snd (check_growth_acceleration growth_values) ! 2 = None"
    by (simp add: growth_values_def)
  from t l(2,3) have g: "\<exists>g. d_sales_growth (snd growth_reports_result) = Some g \<and> length g = 4"
    by auto
  from a0 l len p0 p2 g show ?thesis by blast
qed

section \<open>Extraction of the quarterly series\<close>

lemma int_or_zero_no_number:
  "no_number x \<Longrightarrow> int_or_zero x = Inr 0"
  by (auto simp: int_or_zero_def no_number_def)

lemma int_or_zero_number:
  "s \<noteq> [] \<Longrightarrow> s \<noteq> str ''None'' \<Longrightarrow> int_or_zero (Some s) = py_int s"
  by (simp add: int_or_zero_def)

text \<open>
  What \<open>int\<close> accepts: white space of any script around the number but not the
  separators 0x1C to 0x1F, a sign, digits of any script, single underscores between
  digits.
\<close>

lemma py_int_examples:
  "py_int (str ''100'') = Inr 100
   \<and> py_int (str '' -1_000 '') = Inr (- 1000)
   \<and> py_int (str ''1__0'') = Inl ValueError
   \<and> py_int (str ''+ 12'') = Inl ValueError
   \<and> py_int (str ''12.5'') = Inl ValueError
   \<and> py_int [0x1C, 49, 50] = Inl ValueError
   \<and> py_int [0xA0, 49, 50, 0x3000] = Inr 12
   \<and> py_int [0x661, 0x662] = Inr 12
   \<and> py_int [0xB2] = Inl ValueError"
  by code_simp

lemma extraction:
  assumes "calculate_alpha_vantage_fundamentals d = Inr (sc, det)" and "4 \<le> length d"
  shows "\<exists>revs nis gps.
           d_sales det = Some revs \<and> d_earnings det = Some nis \<and> d_gross_profit det = Some gps
         \<and> length revs = min 8 (length d) \<and> length nis = min 8 (length d)
         \<and> length gps = min 8 (length d)
         \<and> (\<forall>i<min 8 (length d).
               int_or_zero ((d ! i) ''totalRevenue'') = Inr (revs ! i)
             \<and> int_or_zero ((d ! i) ''netIncome'') = Inr (nis ! i)
             \<and> int_or_zero ((d ! i) ''grossProfit'') = Inr (gps ! i))"
proof -
  from calculate_av_Inr [OF assms] obtain revs nis gps where
    e: "extract_field ''totalRevenue'' d = Inr revs" "extract_field ''netIncome'' d = Inr nis"
       "extract_field ''grossProfit'' d = Inr gps"
    and dd: "d_sales det = Some revs" "d_earnings det = Some nis" "d_gross_profit det = Some gps"
    by auto
  from extract_field_nth [OF e(1)] extract_field_nth [OF e(2)] extract_field_nth [OF e(3)] dd
  show ?thesis by auto
qed

text \<open>
  C4, as the claim states it, fails: the placeholder \<open>'None'\<close>, an absent key and
  an empty string all become the integer 0 in the extracted series; no entry is null.
\<close>

theorem placeholder_extracted_as_zero:
  "(sparse_reports ! 0) ''totalRevenue'' = Some (str ''None'')
   \<and> (sparse_reports ! 0) ''netIncome'' = None
   \<and> (sparse_reports ! 0) ''grossProfit'' = Some []
   \<and> calculate_alpha_vantage_fundamentals sparse_reports = Inr sparse_reports_result
   \<and> d_sales (snd sparse_reports_result) = Some [0, 100, 100, 100]
   \<and> d_earnings (snd sparse_reports_result) = Some [0, - 5, 10, 10]
   \<and> d_gross_profit (snd sparse_reports_result) = Some [0, 40, 40, 40]"
  by code_simp

text \<open>
  C4, amended.  For every Alpha Vantage payload of at least four reports on which
  the scorer returns, the extracted revenue, net-income and gross-profit series hold
  one integer for each of the first eight reports, never a null: 0 where the field is
  absent, empty or the placeholder \<open>'None'\<close>, and otherwise the integer that
  Python's \<open>int\<close> reads from the field's text.
\<close>

theorem extraction_defaults_to_zero:
  assumes "calculate_alpha_vantage_fundamentals d = Inr (sc, det)" and "4 \<le> length d"
  shows "\<exists>revs nis gps.
           d_sales det = Some revs \<and> d_earnings det = Some nis \<and> d_gross_profit det = Some gps
         \<and> length revs = min 8 (length d) \<and> length nis = min 8 (length d)
         \<and> length gps = min 8 (length d)
         \<and> (\<forall>i<min 8 (length d).
               (no_number ((d ! i) ''totalRevenue'') \<longrightarrow> revs ! i = 0)
             \<and> (no_number ((d ! i) ''netIncome'') \<longrightarrow> nis ! i = 0)
             \<and> (no_number ((d ! i) ''grossProfit'') \<longrightarrow> gps ! i = 0)
             \<and> (\<forall>s. (d ! i) ''totalRevenue'' = Some s \<and> s \<noteq> [] \<and> s \<noteq> str ''None''
                    \<longrightarrow> py_int s = Inr (revs ! i))
             \<and> (\<forall>s. (d ! i) ''netIncome'' = Some s \<and> s \<noteq> [] \<and> s \<noteq> str ''None''
                    \<longrightarrow> py_int s = Inr (nis ! i))
             \<and> (\<forall>s. (d ! i) ''grossProfit'' = Some s \<and> s \<noteq> [] \<and> s \<noteq> str ''None''
                    \<longrightarrow> py_int s = Inr (gps ! i)))"
proof -
  from extraction [OF assms] obtain revs nis gps where
    dd: "d_sales det = Some revs" "d_earnings det = Some nis" "d_gross_profit det = Some gps"
    and len: "length revs = min 8 (length d)" "length nis = min 8 (length d)"
        "length gps = min 8 (length d)"
    and n: "\<And>i. i < min 8 (length d) \<Longrightarrow>
               int_or_zero ((d ! i) ''totalRevenue'') = Inr (revs ! i)
             \<and> int_or_zero ((d ! i) ''netIncome'') = Inr (nis ! i)
             \<and> int_or_zero ((d ! i) ''grossProfit'') = Inr (gps ! i)"
    by blast
  have "(no_number ((d ! i) ''totalRevenue'') \<longrightarrow> revs ! i = 0)
      \<and> (no_number ((d ! i) ''netIncome'') \<longrightarrow> nis ! i = 0)
      \<and> (no_number ((d ! i) ''grossProfit'') \<longrightarrow> gps ! i = 0)
      \<and> (\<forall>s. (d ! i) ''totalRevenue'' = Some s \<and> s \<noteq> [] \<and> s \<noteq> str ''None''
             \<longrightarrow> py_int s = Inr (revs ! i))
      \<and> (\<forall>s. (d ! i) ''netIncome'' = Some s \<and> s \<noteq> [] \<and> s \<noteq> str ''None''
             \<longrightarrow> py_int s = Inr (nis ! i))
      \<and> (\<forall>s. (d ! i) ''grossProfit'' = Some s \<and> s \<noteq> [] \<and> s \<noteq> str ''None''
             \<longrightarrow> py_int s = Inr (gps ! i))"
    if "i < min 8 (length d)" for i
    using n [OF that] by (auto simp: int_or_zero_no_number int_or_zero_number)
  with dd len show ?thesis by blast
qed

theorem extraction_defaults_to_zero_witness:
  "calculate_alpha_vantage_fundamentals sparse_reports = Inr sparse_reports_result
   \<and> 4 \<le> length sparse_reports
   \<and> no_number ((sparse_reports ! 0) ''totalRevenue'')
   \<and> calculate_alpha_vantage_fundamentals unicode_reports = Inr unicode_reports_result
   \<and> (unicode_reports ! 0) ''totalRevenue'' = Some [0xA0, 49, 50]
   \<and> py_int [0xA0, 49, 50] = Inr 12
   \<and> (unicode_reports ! 1) ''totalRevenue'' = Some [0x661, 0x662]
   \<and> py_int [0x661, 0x662] = Inr 12
   \<and> (separator_reports ! 0) ''totalRevenue'' = Some [0x1C, 49, 50]
   \<and> calculate_alpha_vantage_fundamentals separator_reports = Inl ValueError
   \<and> (\<exists>revs nis gps.
         d_sales (snd sparse_reports_result) = Some revs
       \<and> d_earnings (snd sparse_reports_result) = Some nis
       \<and> d_gross_profit (snd sparse_reports_result) = Some gps
       \<and> length revs = 4
       \<and> revs ! 0 = 0
       \<and> py_int (str ''100'') = Inr (revs ! 1))"
proof -
  have a0: "calculate_alpha_vantage_fundamentals sparse_reports = Inr sparse_reports_result"
    by code_simp
  then have a: "calculate_alpha_vantage_fundamentals sparse_reports
             = Inr (fst sparse_reports_result, snd sparse_reports_result)"
    by simp
  have l: "4 \<le> length sparse_reports" "min 8 (length sparse_reports) = 4"
    by (simp_all add: sparse_reports_def)
  have f: "no_number ((sparse_reports ! 0) ''totalRevenue'')"
    "(sparse_reports ! 1) ''totalRevenue'' = Some (str ''100'') \<and> str ''100'' \<noteq> [] \<and> str ''100'' \<noteq> str ''None''"
    by (simp_all add: sparse_reports_def mk_report_def no_number_def str_def)
  have i: "0 < min 8 (length sparse_reports)" "1 < min 8 (length sparse_reports)"
    by (simp_all add: l(2))
  from extraction_defaults_to_zero [OF a l(1)] obtain revs nis gps where
    dd: "d_sales (snd sparse_reports_result) = Some revs"
        "d_earnings (snd sparse_reports_result) = Some nis"
        "d_gross_profit (snd sparse_reports_result) = Some gps"
    and len: "length revs = min 8 (length sparse_reports)"
    and n: "\<forall>i<min 8 (length sparse_reports).
               (no_number ((sparse_reports ! i) ''totalRevenue'') \<longrightarrow> revs ! i = 0)
             \<and> (no_number ((sparse_reports ! i) ''netIncome'') \<longrightarrow> nis ! i = 0)
             \<and> (no_number ((sparse_reports ! i) ''grossProfit'') \<longrightarrow> gps ! i = 0)
             \<and> (\<forall>s. (sparse_reports ! i) ''totalRevenue'' = Some s \<and> s \<noteq> [] \<and> s \<noteq> str ''None''
                    \<longrightarrow> py_int s = Inr (revs ! i))
             \<and> (\<forall>s. (sparse_reports ! i) ''netIncome'' = Some s \<and> s \<noteq> [] \<and> s \<noteq> str ''None''
                    \<longrightarrow> py_int s = Inr (nis ! i))
             \<and> (\<forall>s. (sparse_reports ! i) ''grossProfit'' = Some s \<and> s \<noteq> [] \<and> s \<noteq> str ''None''
                    \<longrightarrow> py_int s = Inr (gps ! i))"
    by (elim exE conjE) 
  note n0 = n [rule_format, OF i(1)]
  note n1 = n [rule_format, OF i(2)]
  from n0 f(1) have r0: "revs ! 0 = 0" by (elim conjE) simp
  from n1 have "(sparse_reports ! 1) ''totalRevenue'' = Some (str ''100'') \<and> str ''100'' \<noteq> [] \<and> str ''100'' \<noteq> str ''None''
                    \<longrightarrow> py_int (str ''100'') = Inr (revs ! 1)"
    by (elim conjE allE [of _ "str ''100''"]) 
  from this f(2) have r1: "py_int (str ''100'') = Inr (revs ! 1)" by (rule mp)
  from len l(2) have len4: "length revs = 4" by simp
  have b0: "calculate_alpha_vantage_fundamentals unicode_reports = Inr unicode_reports_result"
    by code_simp
  then have b: "calculate_alpha_vantage_fundamentals unicode_reports
             = Inr (fst unicode_reports_result, snd unicode_reports_result)"
    by simp
  have lu: "4 \<le> length unicode_reports" "min 8 (length unicode_reports) = 4"
    by (simp_all add: unicode_reports_def)
  have fu: "(unicode_reports ! 0) ''totalRevenue'' = Some [0xA0, 49, 50]"
    "(unicode_reports ! 1) ''totalRevenue'' = Some [0x661, 0x662]"
    by (simp_all add: unicode_reports_def revenue_report_def)
  have ne: "[0xA0, 49, 50] \<noteq> ([] :: int list)" "[0xA0, 49, 50] \<noteq> str ''None''"
    "[0x661, 0x662] \<noteq> ([] :: int list)" "[0x661, 0x662] \<noteq> str ''None''"
    by (simp_all add: str_def)
  have iu: "0 < min 8 (length unicode_reports)" "1 < min 8 (length unicode_reports)"
    by (simp_all add: lu(2))
  have fs: "(separator_reports ! 0) ''totalRevenue'' = Some [0x1C, 49, 50]"
    by (simp add: separator_reports_def revenue_report_def)
  have c0: "calculate_alpha_vantage_fundamentals separator_reports = Inl ValueError"
    by code_simp
  from extraction_defaults_to_zero [OF b lu(1)] obtain urevs unis ugps where
    du: "d_sales (snd unicode_reports_result) = Some urevs"
    and nu: "\<forall>i<min 8 (length unicode_reports).
               (no_number ((unicode_reports ! i) ''totalRevenue'') \<longrightarrow> urevs ! i = 0)
             \<and> (no_number ((unicode_reports ! i) ''netIncome'') \<longrightarrow> unis ! i = 0)
             \<and> (no_number ((unicode_reports ! i) ''grossProfit'') \<longrightarrow> ugps ! i = 0)
             \<and> (\<forall>s. (unicode_reports ! i) ''totalRevenue'' = Some s \<and> s \<noteq> [] \<and> s \<noteq> str ''None''
                    \<longrightarrow> py_int s = Inr (urevs ! i))
             \<and> (\<forall>s. (unicode_reports ! i) ''netIncome'' = Some s \<and> s \<noteq> [] \<and> s \<noteq> str ''None''
                    \<longrightarrow> py_int s = Inr (unis ! i))
             \<and> (\<forall>s. (unicode_reports ! i) ''grossProfit'' = Some s \<and> s \<noteq> [] \<and> s \<noteq> str ''None''
                    \<longrightarrow> py_int s = Inr (ugps ! i))"
    by (elim exE conjE)
  from du have ur: "urevs = [12, 12, 1000, - 7]"
    by (simp add: unicode_reports_result_def)
  from nu [rule_format, OF iu(1)]
  have "\<forall>s. (unicode_reports ! 0) ''totalRevenue'' = Some s \<and> s \<noteq> [] \<and> s \<noteq> str ''None''
                    \<longrightarrow> py_int s = Inr (urevs ! 0)"
    by (elim conjE)
  from this [THEN spec, THEN mp, OF conjI [OF fu(1) conjI [OF ne(1) ne(2)]]]
  have u0: "py_int [0xA0, 49, 50] = Inr 12"
    unfolding ur by simp
  from nu [rule_format, OF iu(2)]
  have "\<forall>s. (unicode_reports ! 1) ''totalRevenue'' = Some s \<and> s \<noteq> [] \<and> s \<noteq> str ''None''
                    \<longrightarrow> py_int s = Inr (urevs ! 1)"
    by (elim conjE)
  from this [THEN spec, THEN mp, OF conjI [OF fu(2) conjI [OF ne(3) ne(4)]]]
  have u1: "py_int [0x661, 0x662] = Inr 12"
    unfolding ur by simp
  show ?thesis
    by (intro conjI exI [of _ revs] exI [of _ nis] exI [of _ gps])
       (fact a0 l(1) f(1) b0 fu u0 u1 fs c0 dd len4 r0 r1)+
qed

section \<open>The Rule of 40\<close>

lemma av_rule_of_40_score:
  assumes "calculate_alpha_vantage_fundamentals d = Inr (sc, det)" and "5 \<le> length d"
  shows "\<exists>rev0 rev4 gp0.
            int_or_zero ((d ! 0) ''totalRevenue'') = Inr rev0
          \<and> int_or_zero ((d ! 4) ''totalRevenue'') = Inr rev4
          \<and> int_or_zero ((d ! 0) ''grossProfit'') = Inr gp0
          \<and> rule_of_40 sc =
               (if rev0 \<noteq> 0 \<and> rev4 \<noteq> 0 \<and> gp0 \<noteq> 0
                   \<and> np_ge (f64_add (f64_mul (round_double (of_int (rev0 - rev4) / of_int \<bar>rev4\<bar>))
                                               (Fin 100))
                                      (f64_mul (round_double (of_int gp0 / of_int rev0)) (Fin 100)))
                               (Fin 40)
                then 1 else 0)"
proof -
  from assms(2) have l4: "4 \<le> length d" by simp
  from calculate_av_Inr [OF assms(1) l4] obtain revenues gross_profits rg pm r40 where
    e: "extract_field ''totalRevenue'' d = Inr revenues"
       "extract_field ''grossProfit'' d = Inr gross_profits"
    and r: "av_rule_of_40 d revenues gross_profits = Inr (rule_of_40 sc, rg, pm, r40)"
    by auto
  from assms(2) have m: "0 < min 8 (length d)" by auto
  from extract_field_nth [OF e(1)] m
  have r0: "int_or_zero ((d ! 0) ''totalRevenue'') = Inr (revenues ! 0)"
    by (elim conjE) (simp only:)
  from extract_field_nth [OF e(2)] m
  have g0: "int_or_zero ((d ! 0) ''grossProfit'') = Inr (gross_profits ! 0)"
    by (elim conjE) (simp only:)
  from r assms(2) obtain y where y: "int_or_zero ((d ! 4) ''totalRevenue'') = Inr y"
    by (cases "int_or_zero ((d ! 4) ''totalRevenue'')") (auto simp: av_rule_of_40_def)
  from r assms(2) y have "rule_of_40 sc =
               (if revenues ! 0 \<noteq> 0 \<and> y \<noteq> 0 \<and> gross_profits ! 0 \<noteq> 0
                   \<and> np_ge (f64_add (f64_mul (round_double (of_int (revenues ! 0 - y) / of_int \<bar>y\<bar>))
                                               (Fin 100))
                                      (f64_mul (round_double (of_int (gross_profits ! 0)
                                                               / of_int (revenues ! 0)))
                                               (Fin 100)))
                               (Fin 40)
                then 1 else 0)"
    by (auto simp: av_rule_of_40_def Let_def split: if_splits sum.splits
             dest!: int_true_div_Inr)
  with r0 g0 y show ?thesis by blast
qed

lemma av_rule_of_40_few:
  assumes "calculate_alpha_vantage_fundamentals d = Inr (sc, det)" and "length d < 5"
  shows "rule_of_40 sc = 0"
proof (cases "4 \<le> length d")
  case True
  from calculate_av_Inr [OF assms(1) True] obtain revenues gross_profits rg pm r40 where
    "av_rule_of_40 d revenues gross_profits = Inr (rule_of_40 sc, rg, pm, r40)"
    by auto
  with assms(2) show ?thesis by (simp add: av_rule_of_40_def)
next
  case False
  with assms(1) calculate_av_short [of d] show ?thesis by (auto simp: no_scores_def)
qed

text \<open>
  The primary path adds doubles too: revenue 48 after 45 with a gross profit of 16
  scores 0 there.  And on the secondary path a quotient too large for a float makes
  the call raise.
\<close>

lemma rule_of_40_in_doubles:
  "d_rule_of_40 (snd (calculate_fundamental_scores (Some rounded_fund)))
     = Some (Fin (5629499534213119 / 140737488355328))
   \<and> rule_of_40 (fst (calculate_fundamental_scores (Some rounded_fund))) = 0
   \<and> calculate_alpha_vantage_fundamentals overflow_reports = Inl OverflowError"
  by code_simp

text \<open>
  C1, as the claim states it, fails on both paths.  On the primary path the scorer
  compares revenue with the quarter before, not with the quarter four before: with
  revenue 100 after 50, 100 a year earlier and a margin of 10 per cent, the
  year-over-year sum is 10 but the score is 1.  On the secondary path a latest gross
  profit of 0 counts as missing: with revenue 200 after 100 a year earlier the sum
  is 100 but the score is 0.  And the sum is a sum of doubles: with revenue 48 after
  45 a year earlier and a gross profit of 16 the growth and the margin add up to
  exactly 40, but the rounded sum is below 40 and the score is 0.
\<close>

theorem rule_of_40_not_yoy_plus_margin:
  "income quarter_jump_fund ''Total Revenue'' = Some (map Fin [100, 50, 50, 50, 100])
   \<and> income quarter_jump_fund ''Gross Profit'' = Some (map Fin [10, 5, 5, 5, 10])
   \<and> ((100 - 100) / \<bar>100\<bar> * 100 + 10 / 100 * 100 :: rat) < 40
   \<and> rule_of_40 (fst (calculate_fundamental_scores (Some quarter_jump_fund))) = 1
   \<and> calculate_alpha_vantage_fundamentals no_profit_reports = Inr no_profit_reports_result
   \<and> d_sales (snd no_profit_reports_result) = Some [200, 100, 100, 100, 100]
   \<and> d_gross_profit (snd no_profit_reports_result) = Some [0, 40, 40, 40, 40]
   \<and> ((200 - 100) / \<bar>100\<bar> * 100 + 0 / 200 * 100 :: rat) \<ge> 40
   \<and> rule_of_40 (fst no_profit_reports_result) = 0
   \<and> calculate_alpha_vantage_fundamentals rounded_reports = Inr rounded_reports_result
   \<and> d_sales (snd rounded_reports_result) = Some [48, 45, 45, 45, 45]
   \<and> d_gross_profit (snd rounded_reports_result) = Some [16, 15, 15, 15, 15]
   \<and> ((48 - 45) / \<bar>45\<bar> * 100 + 16 / 48 * 100 :: rat) = 40
   \<and> rule_of_40 (fst rounded_reports_result) = 0"
  by code_simp

text \<open>
  C1, amended.  On the secondary (Alpha Vantage) path, for every series of at
  least five quarters on which the scorer returns, the Rule-of-40 score is 1 exactly
  when the latest revenue, the revenue four quarters before and the latest gross
  profit are all non-zero (a zero stands for missing data) and the sum of
  \<open>(rev[0] - rev[4]) / |rev[4]| * 100\<close> and the latest gross margin percentage
  \<open>gp[0] / rev[0] * 100\<close>, computed in double-precision floating point (each
  quotient, each product with 100 and the sum rounded to the nearest double), is at
  least 40; otherwise it is 0, as it is for fewer than five quarters.
\<close>

theorem rule_of_40_secondary:
  assumes "calculate_alpha_vantage_fundamentals d = Inr (sc, det)"
  shows "binary (rule_of_40 sc)
     \<and> (length d < 5 \<longrightarrow> rule_of_40 sc = 0)
     \<and> (5 \<le> length d \<longrightarrow>
          (\<exists>rev0 rev4 gp0.
              int_or_zero ((d ! 0) ''totalRevenue'') = Inr rev0
            \<and> int_or_zero ((d ! 4) ''totalRevenue'') = Inr rev4
            \<and> int_or_zero ((d ! 0) ''grossProfit'') = Inr gp0
            \<and> rule_of_40 sc =
                 (if rev0 \<noteq> 0 \<and> rev4 \<noteq> 0 \<and> gp0 \<noteq> 0
                     \<and> np_ge (f64_add (f64_mul (round_double (of_int (rev0 - rev4) / of_int \<bar>rev4\<bar>))
                                                 (Fin 100))
                                        (f64_mul (round_double (of_int gp0 / of_int rev0)) (Fin 100)))
                                 (Fin 40)
                  then 1 else 0)))"
proof -
  have 2: "length d < 5 \<longrightarrow> rule_of_40 sc = 0"
    using av_rule_of_40_few [OF assms] by blast
  have 3: "5 \<le> length d \<longrightarrow>
          (\<exists>rev0 rev4 gp0.
              int_or_zero ((d ! 0) ''totalRevenue'') = Inr rev0
            \<and> int_or_zero ((d ! 4) ''totalRevenue'') = Inr rev4
            \<and> int_or_zero ((d ! 0) ''grossProfit'') = Inr gp0
            \<and> rule_of_40 sc =
                 (if rev0 \<noteq> 0 \<and> rev4 \<noteq> 0 \<and> gp0 \<noteq> 0
                     \<and> np_ge (f64_add (f64_mul (round_double (of_int (rev0 - rev4) / of_int \<bar>rev4\<bar>))
                                                 (Fin 100))
                                        (f64_mul (round_double (of_int gp0 / of_int rev0)) (Fin 100)))
                                 (Fin 40)
                  then 1 else 0))"
    using av_rule_of_40_score [OF assms] by blast
  have 1: "binary (rule_of_40 sc)"
  proof (cases "5 \<le> length d")
    case True
    with 3 show ?thesis by (auto simp: binary_def)
  next
    case False
    with 2 show ?thesis by (simp add: binary_def)
  qed
  from 1 2 3 show ?thesis by blast
qed

theorem rule_of_40_secondary_witness:
  "calculate_alpha_vantage_fundamentals profit_reports = Inr profit_reports_result
   \<and> 5 \<le> length profit_reports
   \<and> int_or_zero ((profit_reports ! 0) ''totalRevenue'') = Inr 120
   \<and> int_or_zero ((profit_reports ! 4) ''totalRevenue'') = Inr 100
   \<and> int_or_zero ((profit_reports ! 0) ''grossProfit'') = Inr 60
   \<and> np_ge (f64_add (f64_mul (round_double (of_int (120 - 100) / of_int \<bar>100\<bar>)) (Fin 100))
                      (f64_mul (round_double (of_int 60 / of_int 120)) (Fin 100)))
             (Fin 40)
   \<and> binary (rule_of_40 (fst profit_reports_result))
   \<and> rule_of_40 (fst profit_reports_result) = 1"
proof -
  have a0: "calculate_alpha_vantage_fundamentals profit_reports = Inr profit_reports_result"
    by code_simp
  then have a: "calculate_alpha_vantage_fundamentals profit_reports
             = Inr (fst profit_reports_result, snd profit_reports_result)"
    by simp
  have l: "5 \<le> length profit_reports"
    by (simp add: profit_reports_def)
  have p: "int_or_zero ((profit_reports ! 0) ''totalRevenue'') = Inr 120"
    "int_or_zero ((profit_reports ! 4) ''totalRevenue'') = Inr 100"
    "int_or_zero ((profit_reports ! 0) ''grossProfit'') = Inr 60"
    by code_simp+
  have q: "np_ge (f64_add (f64_mul (round_double (of_int (120 - 100) / of_int \<bar>100\<bar>)) (Fin 100))
                          (f64_mul (round_double (of_int 60 / of_int 120)) (Fin 100)))
                 (Fin 40)"
    by code_simp
  note t = rule_of_40_secondary [OF a]
  from t have b: "binary (rule_of_40 (fst profit_reports_result))"
    by (rule conjunct1)
  from t have "5 \<le> length profit_reports \<longrightarrow>
          (\<exists>rev0 rev4 gp0.
              int_or_zero ((profit_reports ! 0) ''totalRevenue'') = Inr rev0
            \<and> int_or_zero ((profit_reports ! 4) ''totalRevenue'') = Inr rev4
            \<and> int_or_zero ((profit_reports ! 0) ''grossProfit'') = Inr gp0
            \<and> rule_of_40 (fst profit_reports_result) =
                 (if rev0 \<noteq> 0 \<and> rev4 \<noteq> 0 \<and> gp0 \<noteq> 0
                     \<and> np_ge (f64_add (f64_mul (round_double (of_int (rev0 - rev4) / of_int \<bar>rev4\<bar>))
                                                 (Fin 100))
                                        (f64_mul (round_double (of_int gp0 / of_int rev0)) (Fin 100)))
                                 (Fin 40)
                  then 1 else 0))"
    by (elim conjE)
  from this l have "\<exists>rev0 rev4 gp0.
              int_or_zero ((profit_reports ! 0) ''totalRevenue'') = Inr rev0
            \<and> int_or_zero ((profit_reports ! 4) ''totalRevenue'') = Inr rev4
            \<and> int_or_zero ((profit_reports ! 0) ''grossProfit'') = Inr gp0
            \<and> rule_of_40 (fst profit_reports_result) =
                 (if rev0 \<noteq> 0 \<and> rev4 \<noteq> 0 \<and> gp0 \<noteq> 0
                     \<and> np_ge (f64_add (f64_mul (round_double (of_int (rev0 - rev4) / of_int \<bar>rev4\<bar>))
                                                 (Fin 100))
                                        (f64_mul (round_double (of_int gp0 / of_int rev0)) (Fin 100)))
                                 (Fin 40)
                  then 1 else 0)"
    by (rule mp)
  then obtain rev0 rev4 gp0 where
    "int_or_zero ((profit_reports ! 0) ''totalRevenue'') = Inr rev0"
    "int_or_zero ((profit_reports ! 4) ''totalRevenue'') = Inr rev4"
    "int_or_zero ((profit_reports ! 0) ''grossProfit'') = Inr gp0"
    and s: "rule_of_40 (fst profit_reports_result) =
                 (if rev0 \<noteq> 0 \<and> rev4 \<noteq> 0 \<and> gp0 \<noteq> 0
                     \<and> np_ge (f64_add (f64_mul (round_double (of_int (rev0 - rev4) / of_int \<bar>rev4\<bar>))
                                                 (Fin 100))
                                        (f64_mul (round_double (of_int gp0 / of_int rev0)) (Fin 100)))
                                 (Fin 40)
                  then 1 else 0)"
    by (elim conjE exE)
  with p have "rev0 = 120" "rev4 = 100" "gp0 = 60" by simp_all
  with s q have one: "rule_of_40 (fst profit_reports_result) = 1" by simp
  show ?thesis
    by (intro conjI) (fact a0 l p q b one)+
qed

section \<open>The gross-margin score\<close>


lemma margin_Fin:
  "(if np_ne (Fin r) (Fin 0) then Some (np_mul (np_div (Fin g) (Fin r)) (Fin 100)) else None)
     = (if r = 0 then None else Some (Fin (g / r * 100)))"
  by (simp add: np_ne_def)










section \<open>The return-on-equity score\<close>

lemma yahoo_roe_scores:
  assumes "calculate_fundamental_scores (Some fd) = (sc, det)"
  shows "yahoo_roe fd = (roe sc, d_roe det, d_roe_quarters det)"
  using assms
  by (auto simp: calculate_fundamental_scores_def Let_def split: prod.splits)

lemma yahoo_roe_reported:
  assumes "info fd ''returnOnEquity'' = Some r"
  shows "yahoo_roe fd = (if np_ge (f64_mul r (Fin 100)) (Fin 15) then 1 else 0,
                         Some (f64_mul r (Fin 100)), Some [Some (f64_mul r (Fin 100))])"
  using assms by (simp add: yahoo_roe_def Let_def)

lemma yahoo_roe_quarters_nth:
  assumes "income fd ''Net Income'' = Some nis" and "balance fd ''Stockholders Equity'' = Some eqs"
  shows "length (yahoo_roe_quarters fd) = min 4 (min (length nis) (length eqs))
     \<and> (\<forall>i<min 4 (min (length nis) (length eqs)). \<forall>a b. nis ! i = Fin a \<and> eqs ! i = Fin b \<longrightarrow>
           yahoo_roe_quarters fd ! i
             = (if b = 0 then None
                else Some (f64_mul (f64_div (f64_mul (Fin a) (Fin 4)) (Fin b)) (Fin 100))))"
  using assms by (auto simp: yahoo_roe_quarters_def Let_def np_ne_def)

lemma yahoo_roe_derived:
  assumes "info fd ''returnOnEquity'' = None"
  shows "yahoo_roe fd =
           (case latest_of (Some (yahoo_roe_quarters fd)) of
              Some q \<Rightarrow> if np_ge q (Fin 15) then 1 else 0 | None \<Rightarrow> 0,
            None,
            if yahoo_roe_quarters fd \<noteq> [] then Some (yahoo_roe_quarters fd) else None)"
  using assms
  by (cases "yahoo_roe_quarters fd") (auto simp: yahoo_roe_def Let_def latest_of_def)

lemma av_scores_roe:
  assumes "av_scores v = Inr (sc, det)"
  shows "roe sc = 0"
proof (cases v)
  case None
  with assms show ?thesis by (auto simp: av_scores_def no_scores_def)
next
  case (Some j)
  show ?thesis
  proof (cases j)
    case (JText s)
    with assms Some show ?thesis by (auto simp: av_scores_def no_scores_def split: if_splits)
  next
    case (JReports d)
    with assms Some have c: "calculate_alpha_vantage_fundamentals d = Inr (sc, det)"
      by (simp add: av_scores_def)
    show ?thesis
    proof (cases "4 \<le> length d")
      case True
      from calculate_av_Inr [OF c True] show ?thesis by blast
    next
      case False
      with c calculate_av_short [of d] show ?thesis by (auto simp: no_scores_def)
    qed
  qed
qed

lemma fundamental_scores_av:
  assumes "fundamental_scores k resp ff yi = Inr (Alpha_Vantage, sc)"
  shows "\<exists>v s0 det. av_scores v = Inr (s0, det) \<and> sc = fst (supplement_roe yi (s0, det))"
  using assms
  by (auto simp: fundamental_scores_def Let_def split: prod.splits if_splits sum.splits)

lemma supplement_roe_score:
  assumes "roe s0 = 0"
  shows "roe (fst (supplement_roe yi (s0, det))) =
           (case yi of
              None \<Rightarrow> 0
            | Some i \<Rightarrow>
                (case i ''returnOnEquity'' of
                   None \<Rightarrow> 0
                 | Some r \<Rightarrow>
                     if np_ge (if np_lt r (Fin 1) then f64_mul r (Fin 100) else r) (Fin 15)
                     then 1 else 0))"
  using assms by (auto simp: supplement_roe_def Let_def split: option.splits)

lemma yahoo_roe_binary: "binary (fst (yahoo_roe fd))"
  by (auto simp: yahoo_roe_def Let_def binary_def split: option.splits)

text \<open>
  C7, as the claim states it, fails on the secondary path: without a reported ratio
  nothing is derived there.  The score is 0 even when the primary provider's
  statements (net income 10 on equity 200, 20 per cent annualised) give 1 on the
  primary path.
\<close>

theorem roe_secondary_not_derived:
  "fundamental_scores ''KEY'' (Response 200 (Some reports_body)) (Some derived_roe_fund, None)
       (Some empty_info)
     = Inr (Alpha_Vantage, margin_scores 0)
   \<and> empty_info ''returnOnEquity'' = None
   \<and> roe (margin_scores 0) = 0
   \<and> income derived_roe_fund ''Net Income'' = Some [Fin 10, Fin 8]
   \<and> balance derived_roe_fund ''Stockholders Equity'' = Some [Fin 200, Fin 200]
   \<and> roe (fst (calculate_fundamental_scores (Some derived_roe_fund))) = 1"
  by code_simp

text \<open>
  C7, amended.  On the primary path the score prefers the reported trailing
  ratio, times 100; only without it, it derives per quarter the annualised
  \<open>net_income * 4 / stockholders_equity * 100\<close> from the statements (null where the
  equity is 0) and takes the latest quarter.  The percentage is computed in
  double-precision floating point (each product and quotient rounded to the nearest
  double), and the score is 1 exactly when it is at least 15, else 0.  On the
  secondary path the score comes from the reported ratio alone: for a reported ratio
  below 1 the percentage is the ratio times 100, rounded, and the score is 1 exactly
  when it is at least 15; without a reported ratio nothing is derived and the score
  is 0.
\<close>

theorem return_on_equity_score:
  assumes "calculate_fundamental_scores (Some fd) = (ysc, ydet)"
      and "fundamental_scores av_key resp fund_fetch yahoo_info = Inr (Alpha_Vantage, asc)"
  shows "binary (roe ysc) \<and> binary (roe asc)
    \<and> (\<forall>r. info fd ''returnOnEquity'' = Some r \<longrightarrow>
          d_roe ydet = Some (f64_mul r (Fin 100))
        \<and> roe ysc = (if np_ge (f64_mul r (Fin 100)) (Fin 15) then 1 else 0))
    \<and> (info fd ''returnOnEquity'' = None \<longrightarrow>
          d_roe ydet = None
        \<and> (\<forall>nis eqs. income fd ''Net Income'' = Some nis
                     \<and> balance fd ''Stockholders Equity'' = Some eqs \<longrightarrow>
              (\<forall>i<min 4 (min (length nis) (length eqs)).
                 \<forall>a b. nis ! i = Fin a \<and> eqs ! i = Fin b \<longrightarrow>
                    yahoo_roe_quarters fd ! i
                      = (if b = 0 then None
                         else Some (f64_mul (f64_div (f64_mul (Fin a) (Fin 4)) (Fin b)) (Fin 100))))
            \<and> (\<forall>a b. nis \<noteq> [] \<and> eqs \<noteq> [] \<and> nis ! 0 = Fin a \<and> eqs ! 0 = Fin b \<longrightarrow>
                  roe ysc =
                    (if b \<noteq> 0
                        \<and> np_ge (f64_mul (f64_div (f64_mul (Fin a) (Fin 4)) (Fin b)) (Fin 100))
                                 (Fin 15)
                     then 1 else 0)))
        \<and> (income fd ''Net Income'' = None \<or> balance fd ''Stockholders Equity'' = None \<longrightarrow>
              roe ysc = 0))
    \<and> (\<forall>i r. yahoo_info = Some i \<and> i ''returnOnEquity'' = Some r \<and> np_lt r (Fin 1) \<longrightarrow>
          roe asc = (if np_ge (f64_mul r (Fin 100)) (Fin 15) then 1 else 0))
    \<and> (yahoo_info = None \<or> (\<exists>i. yahoo_info = Some i \<and> i ''returnOnEquity'' = None) \<longrightarrow>
          roe asc = 0)"
proof -
  note y = yahoo_roe_scores [OF assms(1)]
  from yahoo_roe_binary [of fd] y have 1: "binary (roe ysc)" by simp
  have 3: "\<forall>r. info fd ''returnOnEquity'' = Some r \<longrightarrow>
          d_roe ydet = Some (f64_mul r (Fin 100))
        \<and> roe ysc = (if np_ge (f64_mul r (Fin 100)) (Fin 15) then 1 else 0)"
    using y yahoo_roe_reported [of fd] by auto
  have 4: "info fd ''returnOnEquity'' = None \<longrightarrow>
          d_roe ydet = None
        \<and> (\<forall>nis eqs. income fd ''Net Income'' = Some nis
                     \<and> balance fd ''Stockholders Equity'' = Some eqs \<longrightarrow>
              (\<forall>i<min 4 (min (length nis) (length eqs)).
                 \<forall>a b. nis ! i = Fin a \<and> eqs ! i = Fin b \<longrightarrow>
                    yahoo_roe_quarters fd ! i
                      = (if b = 0 then None
                         else Some (f64_mul (f64_div (f64_mul (Fin a) (Fin 4)) (Fin b)) (Fin 100))))
            \<and> (\<forall>a b. nis \<noteq> [] \<and> eqs \<noteq> [] \<and> nis ! 0 = Fin a \<and> eqs ! 0 = Fin b \<longrightarrow>
                  roe ysc =
                    (if b \<noteq> 0
                        \<and> np_ge (f64_mul (f64_div (f64_mul (Fin a) (Fin 4)) (Fin b)) (Fin 100))
                                 (Fin 15)
                     then 1 else 0)))
        \<and> (income fd ''Net Income'' = None \<or> balance fd ''Stockholders Equity'' = None \<longrightarrow>
              roe ysc = 0)"
  proof
    assume n: "info fd ''returnOnEquity'' = None"
    from yahoo_roe_derived [OF n] y have
      sc: "roe ysc = (case latest_of (Some (yahoo_roe_quarters fd)) of
              Some q \<Rightarrow> if np_ge q (Fin 15) then 1 else 0 | None \<Rightarrow> 0)"
      and dr: "d_roe ydet = None"
      by simp_all
    have a: "(\<forall>i<min 4 (min (length nis) (length eqs)).
                 \<forall>a b. nis ! i = Fin a \<and> eqs ! i = Fin b \<longrightarrow>
                    yahoo_roe_quarters fd ! i
                      = (if b = 0 then None
                         else Some (f64_mul (f64_div (f64_mul (Fin a) (Fin 4)) (Fin b)) (Fin 100))))
            \<and> (\<forall>a b. nis \<noteq> [] \<and> eqs \<noteq> [] \<and> nis ! 0 = Fin a \<and> eqs ! 0 = Fin b \<longrightarrow>
                  roe ysc =
                    (if b \<noteq> 0
                        \<and> np_ge (f64_mul (f64_div (f64_mul (Fin a) (Fin 4)) (Fin b)) (Fin 100))
                                 (Fin 15)
                     then 1 else 0))"
      if r: "income fd ''Net Income'' = Some nis" "balance fd ''Stockholders Equity'' = Some eqs"
      for nis eqs
    proof -
      note q = yahoo_roe_quarters_nth [OF r]
      have "roe ysc =
              (if b \<noteq> 0
                  \<and> np_ge (f64_mul (f64_div (f64_mul (Fin a) (Fin 4)) (Fin b)) (Fin 100)) (Fin 15)
               then 1 else 0)"
        if h: "nis \<noteq> []" "eqs \<noteq> []" "nis ! 0 = Fin a" "eqs ! 0 = Fin b" for a b
      proof -
        from h(1,2) have pos: "0 < min 4 (min (length nis) (length eqs))" by simp
        with q h(3,4) have q0: "yahoo_roe_quarters fd ! 0
                      = (if b = 0 then None
                         else Some (f64_mul (f64_div (f64_mul (Fin a) (Fin 4)) (Fin b)) (Fin 100)))"
          by blast
        from q have "length (yahoo_roe_quarters fd) = min 4 (min (length nis) (length eqs))"
          by (rule conjunct1)
        with pos have "0 < length (yahoo_roe_quarters fd)" by (simp only:)
        then have "yahoo_roe_quarters fd \<noteq> []" by simp
        then have "latest_of (Some (yahoo_roe_quarters fd)) = yahoo_roe_quarters fd ! 0"
          by (cases "yahoo_roe_quarters fd") (simp_all add: latest_of_def)
        with sc q0 show ?thesis by simp
      qed
      with q show ?thesis by blast
    qed
    have b: "roe ysc = 0"
      if "income fd ''Net Income'' = None \<or> balance fd ''Stockholders Equity'' = None"
    proof -
      from that have "yahoo_roe_quarters fd = []"
        by (auto simp: yahoo_roe_quarters_def split: option.splits)
      with sc show ?thesis by (simp add: latest_of_def)
    qed
    from dr a b show "d_roe ydet = None
        \<and> (\<forall>nis eqs. income fd ''Net Income'' = Some nis
                     \<and> balance fd ''Stockholders Equity'' = Some eqs \<longrightarrow>
              (\<forall>i<min 4 (min (length nis) (length eqs)).
                 \<forall>a b. nis ! i = Fin a \<and> eqs ! i = Fin b \<longrightarrow>
                    yahoo_roe_quarters fd ! i
                      = (if b = 0 then None
                         else Some (f64_mul (f64_div (f64_mul (Fin a) (Fin 4)) (Fin b)) (Fin 100))))
            \<and> (\<forall>a b. nis \<noteq> [] \<and> eqs \<noteq> [] \<and> nis ! 0 = Fin a \<and> eqs ! 0 = Fin b \<longrightarrow>
                  roe ysc =
                    (if b \<noteq> 0
                        \<and> np_ge (f64_mul (f64_div (f64_mul (Fin a) (Fin 4)) (Fin b)) (Fin 100))
                                 (Fin 15)
                     then 1 else 0)))
        \<and> (income fd ''Net Income'' = None \<or> balance fd ''Stockholders Equity'' = None \<longrightarrow>
              roe ysc = 0)"
      by blast
  qed
  from fundamental_scores_av [OF assms(2)] obtain v s0 det where
    v: "av_scores v = Inr (s0, det)" and s: "asc = fst (supplement_roe yahoo_info (s0, det))"
    by blast
  note r = supplement_roe_score [OF av_scores_roe [OF v], of yahoo_info det]
  have 5: "\<forall>i r. yahoo_info = Some i \<and> i ''returnOnEquity'' = Some r \<and> np_lt r (Fin 1) \<longrightarrow>
          roe asc = (if np_ge (f64_mul r (Fin 100)) (Fin 15) then 1 else 0)"
    unfolding s r by auto
  have 6: "yahoo_info = None \<or> (\<exists>i. yahoo_info = Some i \<and> i ''returnOnEquity'' = None) \<longrightarrow>
          roe asc = 0"
    unfolding s r by auto
  have 2: "binary (roe asc)"
    unfolding s r by (auto simp: binary_def split: option.splits)
  from 1 2 3 4 5 6 show ?thesis by blast
qed

theorem return_on_equity_score_witness:
  "fundamental_scores ''KEY'' (Response 200 (Some reports_body)) (None, None)
       (Some (roe_info near_15_ratio))
     = Inr (Alpha_Vantage, margin_scores 1)
   \<and> roe_info near_15_ratio ''returnOnEquity'' = Some (Fin near_15_ratio)
   \<and> np_lt (Fin near_15_ratio) (Fin 1)
   \<and> near_15_ratio * 100 < 15
   \<and> f64_mul (Fin near_15_ratio) (Fin 100) = Fin 15
   \<and> roe (margin_scores 1) = 1
   \<and> info reported_roe_fund ''returnOnEquity'' = Some (Fin (3/2))
   \<and> d_roe (snd (calculate_fundamental_scores (Some reported_roe_fund))) = Some (Fin 150)
   \<and> roe (fst (calculate_fundamental_scores (Some reported_roe_fund))) = 1
   \<and> info derived_roe_fund ''returnOnEquity'' = None
   \<and> income derived_roe_fund ''Net Income'' = Some [Fin 10, Fin 8]
   \<and> balance derived_roe_fund ''Stockholders Equity'' = Some [Fin 200, Fin 200]
   \<and> roe (fst (calculate_fundamental_scores (Some derived_roe_fund))) = 1"
proof -
  have a: "fundamental_scores ''KEY'' (Response 200 (Some reports_body)) (None, None)
             (Some (roe_info near_15_ratio))
           = Inr (Alpha_Vantage, margin_scores 1)"
    by code_simp
  have i: "roe_info near_15_ratio ''returnOnEquity'' = Some (Fin near_15_ratio)"
    by (simp add: roe_info_def)
  have lt: "np_lt (Fin near_15_ratio) (Fin 1)" and ex: "near_15_ratio * 100 < 15"
    by (simp_all add: near_15_ratio_def)
  have p15: "f64_mul (Fin near_15_ratio) (Fin 100) = Fin 15"
    by code_simp
  have p150: "f64_mul (Fin (3/2)) (Fin 100) = Fin 150"
    by code_simp
  have p20: "f64_mul (f64_div (f64_mul (Fin 10) (Fin 4)) (Fin 200)) (Fin 100) = Fin 20"
    by code_simp
  have y1: "calculate_fundamental_scores (Some reported_roe_fund)
             = (fst (calculate_fundamental_scores (Some reported_roe_fund)),
                snd (calculate_fundamental_scores (Some reported_roe_fund)))"
    by simp
  have y2: "calculate_fundamental_scores (Some derived_roe_fund)
             = (fst (calculate_fundamental_scores (Some derived_roe_fund)),
                snd (calculate_fundamental_scores (Some derived_roe_fund)))"
    by simp
  have r1: "info reported_roe_fund ''returnOnEquity'' = Some (Fin (3/2))"
    by (simp add: reported_roe_fund_def roe_info_def)
  have r2: "info derived_roe_fund ''returnOnEquity'' = None"
    by (simp add: derived_roe_fund_def)
  have rows: "income derived_roe_fund ''Net Income'' = Some [Fin 10, Fin 8]"
    "balance derived_roe_fund ''Stockholders Equity'' = Some [Fin 200, Fin 200]"
    by code_simp+
  note t1 = return_on_equity_score [OF y1 a]
  note t2 = return_on_equity_score [OF y2 a]
  from t1 have "\<forall>i r. Some (roe_info near_15_ratio) = Some i \<and> i ''returnOnEquity'' = Some r
                   \<and> np_lt r (Fin 1) \<longrightarrow>
          roe (margin_scores 1) = (if np_ge (f64_mul r (Fin 100)) (Fin 15) then 1 else 0)"
    by (elim conjE)
  from this [rule_format, OF conjI [OF refl conjI [OF i lt]]]
  have "roe (margin_scores 1)
          = (if np_ge (f64_mul (Fin near_15_ratio) (Fin 100)) (Fin 15) then 1 else 0)" .
  then have sa: "roe (margin_scores 1) = 1"
    unfolding p15 by simp
  from t1 have "\<forall>r. info reported_roe_fund ''returnOnEquity'' = Some r \<longrightarrow>
          d_roe (snd (calculate_fundamental_scores (Some reported_roe_fund)))
            = Some (f64_mul r (Fin 100))
        \<and> roe (fst (calculate_fundamental_scores (Some reported_roe_fund)))
            = (if np_ge (f64_mul r (Fin 100)) (Fin 15) then 1 else 0)"
    by (elim conjE)
  from this [THEN spec, THEN mp, OF r1]
  have "d_roe (snd (calculate_fundamental_scores (Some reported_roe_fund)))
                  = Some (f64_mul (Fin (3/2)) (Fin 100))
        \<and> roe (fst (calculate_fundamental_scores (Some reported_roe_fund)))
            = (if np_ge (f64_mul (Fin (3/2)) (Fin 100)) (Fin 15) then 1 else 0)" .
  then have s1: "d_roe (snd (calculate_fundamental_scores (Some reported_roe_fund))) = Some (Fin 150)"
    "roe (fst (calculate_fundamental_scores (Some reported_roe_fund))) = 1"
    unfolding p150 by simp_all
  from t2 have "info derived_roe_fund ''returnOnEquity'' = None \<longrightarrow>
          d_roe (snd (calculate_fundamental_scores (Some derived_roe_fund))) = None
        \<and> (\<forall>nis eqs. income derived_roe_fund ''Net Income'' = Some nis
                     \<and> balance derived_roe_fund ''Stockholders Equity'' = Some eqs \<longrightarrow>
              (\<forall>i<min 4 (min (length nis) (length eqs)).
                 \<forall>a b. nis ! i = Fin a \<and> eqs ! i = Fin b \<longrightarrow>
                    yahoo_roe_quarters derived_roe_fund ! i
                      = (if b = 0 then None
                         else Some (f64_mul (f64_div (f64_mul (Fin a) (Fin 4)) (Fin b)) (Fin 100))))
            \<and> (\<forall>a b. nis \<noteq> [] \<and> eqs \<noteq> [] \<and> nis ! 0 = Fin a \<and> eqs ! 0 = Fin b \<longrightarrow>
                  roe (fst (calculate_fundamental_scores (Some derived_roe_fund))) =
                    (if b \<noteq> 0
                        \<and> np_ge (f64_mul (f64_div (f64_mul (Fin a) (Fin 4)) (Fin b)) (Fin 100))
                                 (Fin 15)
                     then 1 else 0)))
        \<and> (income derived_roe_fund ''Net Income'' = None
             \<or> balance derived_roe_fund ''Stockholders Equity'' = None \<longrightarrow>
              roe (fst (calculate_fundamental_scores (Some derived_roe_fund))) = 0)"
    by (elim conjE)
  note c = this [THEN mp, OF r2, THEN conjunct2, THEN conjunct1, THEN spec, THEN spec,
                 THEN mp, OF conjI [OF rows], THEN conjunct2, THEN spec, THEN spec, THEN mp]
  have "[Fin 10, Fin 8] \<noteq> [] \<and> [Fin 200, Fin 200] \<noteq> []
          \<and> [Fin 10, Fin 8] ! 0 = Fin 10 \<and> [Fin 200, Fin 200] ! 0 = Fin 200"
    by simp
  from c [OF this]
  have "roe (fst (calculate_fundamental_scores (Some derived_roe_fund)))
          = (if (200::rat) \<noteq> 0
                \<and> np_ge (f64_mul (f64_div (f64_mul (Fin 10) (Fin 4)) (Fin 200)) (Fin 100)) (Fin 15)
             then 1 else 0)" .
  then have s2: "roe (fst (calculate_fundamental_scores (Some derived_roe_fund))) = 1"
    unfolding p20 by simp
  show ?thesis
    by (intro conjI) (fact a i lt ex p15 sa r1 s1 r2 rows s2)+
qed

section \<open>Provider selection\<close>

lemma fetch_failure:
  assumes "body ''Error Message'' \<noteq> None \<or> body ''Note'' \<noteq> None
             \<or> body ''Information'' \<noteq> None \<or> body ''quarterlyReports'' = None"
  shows "fst (fetch_alpha_vantage_data av_key (Response 200 (Some body))) = None
       \<and> snd (fetch_alpha_vantage_data av_key (Response 200 (Some body))) \<noteq> None"
  using assms by (auto simp: fetch_alpha_vantage_data_def split: option.splits)

lemma select_provider_fallback:
  assumes "snd (fetch_alpha_vantage_data av_key resp) \<noteq> None
             \<or> \<not> truthy (fst (fetch_alpha_vantage_data av_key resp))"
  shows "fst (select_provider av_key resp) = False"
  using assms by (auto simp: select_provider_def Let_def split: prod.splits)

lemma fundamental_scores_fallback:
  assumes "fst (select_provider av_key resp) = False"
  shows "fundamental_scores av_key resp (fund, fund_error) yahoo_info
           = Inr (Yahoo_Finance,
                  if fund_error \<noteq> None \<and> fund_error \<noteq> Some [] then no_scores
                  else fst (calculate_fundamental_scores fund))"
  using assms by (auto simp: fundamental_scores_def Let_def split: prod.splits)

text \<open>
  C9.  When the decoded answer of the secondary provider contains an
  \<open>Error Message\<close>, \<open>Note\<close> or \<open>Information\<close> key, or lacks
  \<open>quarterlyReports\<close>, the fetch returns no data and a message, the selector does
  not use the secondary provider, and the fundamental scores are those of the
  primary provider alone: the call returns (no exception reaches the aggregator),
  with the scores computed from the primary data, the same as without any key.
\<close>

theorem fallback_to_primary:
  assumes "body ''Error Message'' \<noteq> None \<or> body ''Note'' \<noteq> None
             \<or> body ''Information'' \<noteq> None \<or> body ''quarterlyReports'' = None"
  shows "fst (fetch_alpha_vantage_data av_key (Response 200 (Some body))) = None
     \<and> snd (fetch_alpha_vantage_data av_key (Response 200 (Some body))) \<noteq> None
     \<and> fst (select_provider av_key (Response 200 (Some body))) = False
     \<and> fundamental_scores av_key (Response 200 (Some body)) (fund, fund_error) yahoo_info
          = Inr (Yahoo_Finance,
                 if fund_error \<noteq> None \<and> fund_error \<noteq> Some [] then no_scores
                 else fst (calculate_fundamental_scores fund))
     \<and> fundamental_scores av_key (Response 200 (Some body)) (fund, fund_error) yahoo_info
          = fundamental_scores [] (Response 200 (Some body)) (fund, fund_error) yahoo_info"
proof -
  note f = fetch_failure [OF assms, of av_key]
  from f have s: "fst (select_provider av_key (Response 200 (Some body))) = False"
    by (intro select_provider_fallback) simp
  have e: "fst (select_provider [] (Response 200 (Some body))) = False"
    by (simp add: select_provider_def)
  from f s fundamental_scores_fallback [OF s] fundamental_scores_fallback [OF e]
  show ?thesis by simp
qed

theorem fallback_to_primary_witness:
  "note_body ''Note'' \<noteq> None
   \<and> fst (fetch_alpha_vantage_data ''KEY'' (Response 200 (Some note_body))) = None
   \<and> snd (fetch_alpha_vantage_data ''KEY'' (Response 200 (Some note_body)))
        = Some (Rate_limit (JText ''rate limit''))
   \<and> fst (select_provider ''KEY'' (Response 200 (Some note_body))) = False
   \<and> fundamental_scores ''KEY'' (Response 200 (Some note_body)) (Some margin_fund, None) None
        = Inr (Yahoo_Finance, fst (calculate_fundamental_scores (Some margin_fund)))"
proof -
  have n: "note_body ''Note'' \<noteq> None"
    by (simp add: note_body_def)
  then have h: "note_body ''Error Message'' \<noteq> None \<or> note_body ''Note'' \<noteq> None
             \<or> note_body ''Information'' \<noteq> None \<or> note_body ''quarterlyReports'' = None"
    by (intro disjI2 disjI1)
  have m: "snd (fetch_alpha_vantage_data ''KEY'' (Response 200 (Some note_body)))
        = Some (Rate_limit (JText ''rate limit''))"
    by (simp add: fetch_alpha_vantage_data_def note_body_def py_strip_def is_space_def)
  note t = fallback_to_primary [OF h, of "''KEY''" "Some margin_fund" None None]
  from t have 1: "fst (fetch_alpha_vantage_data ''KEY'' (Response 200 (Some note_body))) = None"
    by (elim conjE)
  from t have 2: "fst (select_provider ''KEY'' (Response 200 (Some note_body))) = False"
    by (elim conjE)
  from t have "fundamental_scores ''KEY'' (Response 200 (Some note_body)) (Some margin_fund, None) None
          = Inr (Yahoo_Finance,
                 if (None :: string option) \<noteq> None \<and> (None :: string option) \<noteq> Some [] then no_scores
                 else fst (calculate_fundamental_scores (Some margin_fund)))"
    by (elim conjE)
  then have 3: "fundamental_scores ''KEY'' (Response 200 (Some note_body)) (Some margin_fund, None) None
        = Inr (Yahoo_Finance, fst (calculate_fundamental_scores (Some margin_fund)))"
    by simp
  show ?thesis
    by (intro conjI) (fact n 1 m 2 3)+
qed

section \<open>Key-bar detection\<close>

text \<open>
  C3, as the claim states it, fails: the thirty-bar average of the volume condition
  is \<open>rolling(window=30).mean()\<close> of the volume column, whose window ends with the
  current bar and so includes it.  In \<open>breakout_bars\<close> the last bar (position 30) has
  volume 11; the thirty bars before it have the mean volume 43, the thirty bars that
  end with it the mean 301/30.  The bar is flagged and selected, although its volume
  does not exceed the average of the bars before it.
\<close>

theorem key_bar_average_includes_bar:
  "snd (detect_key_bars [new_frame breakout_bars] (Some 0)) = (Some 1, Some 30)
   \<and> assigned (Is_Key_Bar (fst (detect_key_bars [new_frame breakout_bars] (Some 0)) ! 1)) ! 30
   \<and> \<not> volume_above_previous_average breakout_bars 30"
proof -
  from breakout_detect obtain d where
    e: "detect_key_bars [new_frame breakout_bars] (Some 0)
          = ([new_frame breakout_bars] @ [d], Some 1, Some 30)"
    and k: "Is_Key_Bar d = Some (key_bar_flags d)" and f: "key_bar_flags d ! 30"
    by blast
  from k f show ?thesis
    unfolding e by (simp add: assigned_Some breakout_not_previous)
qed

text \<open>
  C3, amended.  For every series of at least 30 bars (with finite values), the call
  returns a copy of the series in which a bar is flagged exactly when all three
  hold: its volume exceeds the mean volume of the thirty bars that end with the bar
  itself (the current bar is part of the average, and none of the first 29 bars is
  flagged), \<open>|close - open| / open * 100\<close> exceeds 1.5 (a bar that opens at 0 counts
  when it closes elsewhere), and its high exceeds the high of each of the five bars
  strictly before it (none of the first five bars is flagged).  The selected bar is
  the latest flagged bar among the last ten; no bar is selected when none of the
  last ten is flagged.
\<close>

theorem key_bar_detection:
  assumes "30 \<le> length (rows (h ! r))"
  shows "\<exists>d kb. detect_key_bars h (Some r) = (h @ [d], Some (length h), kb)
     \<and> rows d = rows (h ! r)
     \<and> (\<exists>flags. Is_Key_Bar d = Some flags \<and> length flags = length (rows d)
           \<and> (\<forall>i<length (rows d). flags ! i \<longleftrightarrow> is_key_bar (rows d) i))
     \<and> (\<forall>k. kb = Some k \<longleftrightarrow>
              length (rows d) - 10 \<le> k \<and> k < length (rows d) \<and> is_key_bar (rows d) k
            \<and> (\<forall>j. k < j \<and> j < length (rows d) \<longrightarrow> \<not> is_key_bar (rows d) j))"
proof -
  let ?kb = "\<lambda>d. if filter (is_key_bar (rows d)) [length (rows d) - 10 ..< length (rows d)] \<noteq> []
             then Some (last (filter (is_key_bar (rows d))
                                [length (rows d) - 10 ..< length (rows d)]))
             else None"
  from detect_key_bars_flags [OF assms] obtain d where
    e: "detect_key_bars h (Some r) = (h @ [d], Some (length h), ?kb d)"
    and rw: "rows d = rows (h ! r)"
    and k: "Is_Key_Bar d = Some (key_bar_flags d)"
    and fl: "\<forall>i<length (rows d). key_bar_flags d ! i \<longleftrightarrow> is_key_bar (rows d) i"
    by blast
  have f: "\<exists>flags. Is_Key_Bar d = Some flags \<and> length flags = length (rows d)
           \<and> (\<forall>i<length (rows d). flags ! i \<longleftrightarrow> is_key_bar (rows d) i)"
    using k key_bar_flags_length [of d] fl by blast
  have s: "\<forall>k. ?kb d = Some k \<longleftrightarrow>
              length (rows d) - 10 \<le> k \<and> k < length (rows d) \<and> is_key_bar (rows d) k
            \<and> (\<forall>j. k < j \<and> j < length (rows d) \<longrightarrow> \<not> is_key_bar (rows d) j)"
    by (rule allI) (rule last_filter_upt_iff)
  from e rw f s show ?thesis by blast
qed

theorem key_bar_detection_witness:
  "30 \<le> length (rows ([new_frame breakout_bars] ! 0))
   \<and> (\<exists>d. detect_key_bars [new_frame breakout_bars] (Some 0)
              = ([new_frame breakout_bars] @ [d], Some 1, Some 30)
          \<and> rows d = breakout_bars
          \<and> (\<exists>flags. Is_Key_Bar d = Some flags \<and> length flags = 31 \<and> flags ! 30))
   \<and> is_key_bar breakout_bars 30"
proof -
  have r: "rows ([new_frame breakout_bars] ! 0) = breakout_bars"
    by (simp add: new_frame_def)
  have a: "30 \<le> length (rows ([new_frame breakout_bars] ! 0))"
    unfolding r breakout_length by simp
  from key_bar_detection [OF a] obtain d kb flags where
    e: "detect_key_bars [new_frame breakout_bars] (Some 0)
          = ([new_frame breakout_bars] @ [d], Some (length [new_frame breakout_bars]), kb)"
    and rw: "rows d = rows ([new_frame breakout_bars] ! 0)"
    and k: "Is_Key_Bar d = Some flags"
    and len: "length flags = length (rows d)"
    and fl: "\<forall>i<length (rows d). flags ! i \<longleftrightarrow> is_key_bar (rows d) i"
    and sel: "\<forall>k. kb = Some k \<longleftrightarrow>
              length (rows d) - 10 \<le> k \<and> k < length (rows d) \<and> is_key_bar (rows d) k
            \<and> (\<forall>j. k < j \<and> j < length (rows d) \<longrightarrow> \<not> is_key_bar (rows d) j)"
    by blast
  from rw r have rd: "rows d = breakout_bars" by simp
  have n: "\<forall>j. (30::nat) < j \<and> j < 31 \<longrightarrow> \<not> is_key_bar breakout_bars j"
    by auto
  have "kb = Some 30 \<longleftrightarrow>
          31 - 10 \<le> (30::nat) \<and> (30::nat) < 31 \<and> is_key_bar breakout_bars 30
        \<and> (\<forall>j. 30 < j \<and> j < 31 \<longrightarrow> \<not> is_key_bar breakout_bars j)"
    using sel [THEN spec, of 30] unfolding rd breakout_length .
  with breakout_is_key_bar n have kb: "kb = Some 30" by simp
  have l1: "length [new_frame breakout_bars] = 1" by simp
  have e': "detect_key_bars [new_frame breakout_bars] (Some 0)
          = ([new_frame breakout_bars] @ [d], Some 1, Some 30)"
    using e unfolding kb l1 .
  have i: "30 < length (rows d)" unfolding rd breakout_length by simp
  from fl [rule_format, OF i] breakout_is_key_bar have f30: "flags ! 30"
    unfolding rd by simp
  from len have len': "length flags = 31" unfolding rd breakout_length .
  from k len' f30 have "\<exists>flags. Is_Key_Bar d = Some flags \<and> length flags = 31 \<and> flags ! 30"
    by blast
  with e' rd have "\<exists>d. detect_key_bars [new_frame breakout_bars] (Some 0)
              = ([new_frame breakout_bars] @ [d], Some 1, Some 30)
          \<and> rows d = breakout_bars
          \<and> (\<exists>flags. Is_Key_Bar d = Some flags \<and> length flags = 31 \<and> flags ! 30)"
    by blast
  with a breakout_is_key_bar show ?thesis by blast
qed

text \<open>
  C10.  Key-bar detection never changes the frame it is given: every frame that
  exists before the call, the input among them, is the same after it.  When the call
  returns a frame, that frame is a new object, a copy with the rows of the input;
  the four derived columns (thirty-bar volume average, open-to-close change,
  five-bar previous high and the key-bar flags) are set on this copy.
\<close>

theorem detect_key_bars_frame:
  "take (length h) (fst (detect_key_bars h df)) = h
   \<and> (\<forall>r<length h. fst (detect_key_bars h df) ! r = h ! r)
   \<and> (\<forall>c. fst (snd (detect_key_bars h df)) = Some c \<longrightarrow>
         c = length h \<and> length (fst (detect_key_bars h df)) = Suc (length h)
       \<and> (\<exists>r. df = Some r \<and> rows (fst (detect_key_bars h df) ! c) = rows (h ! r))
       \<and> Volume_SMA30 (fst (detect_key_bars h df) ! c) \<noteq> None
       \<and> Open_Close_Change_Pct (fst (detect_key_bars h df) ! c) \<noteq> None
       \<and> High_5D_Previous (fst (detect_key_bars h df) ! c) \<noteq> None
       \<and> Is_Key_Bar (fst (detect_key_bars h df) ! c) \<noteq> None)"
proof (cases df)
  case None
  then show ?thesis by (simp add: detect_key_bars_None)
next
  case (Some r)
  show ?thesis
  proof (cases "length (rows (h ! r)) < 30")
    case True
    then show ?thesis unfolding Some by (simp add: detect_key_bars_short)
  next
    case False
    then have "30 \<le> length (rows (h ! r))" by simp
    from detect_key_bars_Some [OF this] obtain d kb where
      e: "detect_key_bars h (Some r) = (h @ [d], Some (length h), kb)"
      and rw: "rows d = rows (h ! r)"
      and c: "Volume_SMA30 d = Some (rolling_mean 30 (col Volume d))"
        "Open_Close_Change_Pct d = Some (map change_pct (rows d))"
        "High_5D_Previous d = Some (rolling_max 5 (shift1 (col High d)))"
        "Is_Key_Bar d = Some (key_bar_flags d)"
      by blast
    show ?thesis unfolding Some e by (simp add: nth_append rw c)
  qed
qed

theorem detect_key_bars_frame_witness:
  "(0::nat) < length [new_frame breakout_bars]
   \<and> fst (snd (detect_key_bars [new_frame breakout_bars] (Some 0))) = Some 1
   \<and> fst (detect_key_bars [new_frame breakout_bars] (Some 0)) ! 0 = new_frame breakout_bars
   \<and> Is_Key_Bar (fst (detect_key_bars [new_frame breakout_bars] (Some 0)) ! 0) = None
   \<and> Is_Key_Bar (fst (detect_key_bars [new_frame breakout_bars] (Some 0)) ! 1) \<noteq> None
   \<and> rows (fst (detect_key_bars [new_frame breakout_bars] (Some 0)) ! 1) = breakout_bars"
proof -
  let ?h' = "fst (detect_key_bars [new_frame breakout_bars] (Some 0))"
  from breakout_detect obtain d where
    "detect_key_bars [new_frame breakout_bars] (Some 0)
       = ([new_frame breakout_bars] @ [d], Some 1, Some 30)"
    by blast
  then have s: "fst (snd (detect_key_bars [new_frame breakout_bars] (Some 0))) = Some 1"
    by simp
  have z: "(0::nat) < length [new_frame breakout_bars]" by simp
  note t = detect_key_bars_frame [of "[new_frame breakout_bars]" "Some 0"]
  from t have "\<forall>r<length [new_frame breakout_bars]. ?h' ! r = [new_frame breakout_bars] ! r"
    by (elim conjE)
  from this [rule_format, OF z] have u: "?h' ! 0 = new_frame breakout_bars" by simp
  then have n: "Is_Key_Bar (?h' ! 0) = None" by (simp add: new_frame_def)
  from t have "\<forall>c. fst (snd (detect_key_bars [new_frame breakout_bars] (Some 0))) = Some c \<longrightarrow>
         c = length [new_frame breakout_bars]
       \<and> length ?h' = Suc (length [new_frame breakout_bars])
       \<and> (\<exists>r. Some 0 = Some r \<and> rows (?h' ! c) = rows ([new_frame breakout_bars] ! r))
       \<and> Volume_SMA30 (?h' ! c) \<noteq> None
       \<and> Open_Close_Change_Pct (?h' ! c) \<noteq> None
       \<and> High_5D_Previous (?h' ! c) \<noteq> None
       \<and> Is_Key_Bar (?h' ! c) \<noteq> None"
    by (elim conjE)
  from this [THEN spec, THEN mp, OF s] have
    k: "Is_Key_Bar (?h' ! 1) \<noteq> None"
    and "\<exists>r. Some (0::nat) = Some r \<and> rows (?h' ! 1) = rows ([new_frame breakout_bars] ! r)"
    by blast+
  then have rw: "rows (?h' ! 1) = breakout_bars" by (auto simp: new_frame_def)
  from z s u n k rw show ?thesis by blast
qed

section \<open>Properties of the aggregation\<close>

lemma graded_bounds: "graded x \<Longrightarrow> 0 \<le> x \<and> x \<le> 1"
  by (auto simp: graded_def)

lemma binary_bounds: "binary x \<Longrightarrow> 0 \<le> x \<and> x \<le> 1"
  by (auto simp: binary_def)

lemma total_tech_bounds:
  assumes "valid_tech t"
  shows "0 \<le> total_tech_score t \<and> total_tech_score t \<le> 6"
proof -
  from assms have
    "0 \<le> stage2 t \<and> stage2 t \<le> 1" "0 \<le> market_pulse t \<and> market_pulse t \<le> 1"
    "0 \<le> atr_percentile t \<and> atr_percentile t \<le> 1"
    "0 \<le> accumulation_distribution t \<and> accumulation_distribution t \<le> 1"
    "0 \<le> insider_activity t \<and> insider_activity t \<le> 1"
    "0 \<le> key_bar t \<and> key_bar t \<le> 1"
    unfolding valid_tech_def by (blast dest: graded_bounds binary_bounds)+
  then show ?thesis unfolding total_tech_score_def by linarith
qed

lemma total_fund_bounds:
  assumes "valid_fund f"
  shows "0 \<le> total_fund_score f \<and> total_fund_score f \<le> 5"
proof -
  from assms have
    "0 \<le> sales_growth f \<and> sales_growth f \<le> 1" "0 \<le> gross_margin f \<and> gross_margin f \<le> 1"
    "0 \<le> earnings f \<and> earnings f \<le> 1" "0 \<le> rule_of_40 f \<and> rule_of_40 f \<le> 1"
    "0 \<le> roe f \<and> roe f \<le> 1"
    unfolding valid_fund_def by (blast dest: graded_bounds binary_bounds)+
  then show ?thesis unfolding total_fund_score_def by linarith
qed

lemma total_remarks_bounds:
  assumes "valid_remarks r"
  shows "0 \<le> total_remarks_score r \<and> total_remarks_score r \<le> 2"
proof -
  from assms have
    "0 \<le> top_rated_group r \<and> top_rated_group r \<le> 1"
    "0 \<le> new_development r \<and> new_development r \<le> 1"
    unfolding valid_remarks_def by (blast dest: binary_bounds)+
  then show ?thesis unfolding total_remarks_score_def by linarith
qed

text \<open>
  C8.  For every valid combination of sub-scores the total is the sum of the
  technical, fundamental and remarks scores, the remarks score is the sum of two
  binary flags and at most 2, the percentage is total / 13 * 100 and lies between 0
  and 100, and the rating is read off the percentage from the highest band down:
  at least 75 Excellent, at least 60 Good, at least 45 Average, at least 30 Below
  Average, otherwise Poor.
\<close>

theorem aggregate_total_percentage_rating:
  assumes "valid_tech t" and "valid_fund f" and "valid_remarks r"
  shows "total_score t f r = total_tech_score t + total_fund_score f + total_remarks_score r
    \<and> total_remarks_score r = top_rated_group r + new_development r
    \<and> total_remarks_score r \<le> 2
    \<and> percentage t f r = total_score t f r / 13 * 100
    \<and> 0 \<le> percentage t f r \<and> percentage t f r \<le> 100
    \<and> rating t f r =
           (if 75 \<le> percentage t f r then Excellent
            else if 60 \<le> percentage t f r then Good
            else if 45 \<le> percentage t f r then Average
            else if 30 \<le> percentage t f r then Below_Average
            else Poor)"
proof -
  have 1: "total_score t f r = total_tech_score t + total_fund_score f + total_remarks_score r"
    by (simp add: total_score_def)
  have 2: "total_remarks_score r = top_rated_group r + new_development r"
    by (simp add: total_remarks_score_def)
  have 3: "total_remarks_score r \<le> 2"
    using total_remarks_bounds [OF assms(3)] by simp
  have 4: "percentage t f r = total_score t f r / 13 * 100"
    by (simp add: percentage_def max_score_def)
  have b: "0 \<le> total_score t f r" "total_score t f r \<le> 13"
    using total_tech_bounds [OF assms(1)] total_fund_bounds [OF assms(2)]
      total_remarks_bounds [OF assms(3)]
    unfolding total_score_def by linarith+
  have 5: "0 \<le> percentage t f r"
    using b(1) by (simp add: percentage_def max_score_def)
  have 6: "percentage t f r \<le> 100"
    using b(2) by (simp add: percentage_def max_score_def)
  have 7: "rating t f r =
           (if 75 \<le> percentage t f r then Excellent
            else if 60 \<le> percentage t f r then Good
            else if 45 \<le> percentage t f r then Average
            else if 30 \<le> percentage t f r then Below_Average
            else Poor)"
    by (simp add: rating_def rating_of_def)
  from 1 2 3 4 5 6 7 show ?thesis by blast
qed

theorem aggregate_total_percentage_rating_witness:
  "valid_tech example_tech \<and> valid_fund example_fund \<and> valid_remarks example_remarks
   \<and> total_score example_tech example_fund example_remarks = 9
   \<and> percentage example_tech example_fund example_remarks = 900 / 13
   \<and> percentage example_tech example_fund example_remarks \<le> 100
   \<and> rating example_tech example_fund example_remarks = Good"
proof -
  have t: "valid_tech example_tech"
    by (simp add: valid_tech_def example_tech_def graded_def binary_def)
  have f: "valid_fund example_fund"
    by (simp add: valid_fund_def example_fund_def graded_def binary_def)
  have r: "valid_remarks example_remarks"
    by (simp add: valid_remarks_def example_remarks_def binary_def)
  have tot: "total_score example_tech example_fund example_remarks = 9"
    by (simp add: total_score_def total_tech_score_def total_fund_score_def
        total_remarks_score_def example_tech_def example_fund_def example_remarks_def)
  from aggregate_total_percentage_rating [OF t f r] tot t f r
  show ?thesis by simp
qed

end
